theory Spec2Isabelle
  imports Complex_Main "HOL-Library.Word"
begin

section \<open>Python strings and paths\<close>

text \<open>
  A Python \<^verbatim>\<open>str\<close> is modelled as a \<open>string\<close> whose characters are the code points
  0 to 255. \<^verbatim>\<open>str.strip()\<close> removes the white space of that range at both ends.
  \<^verbatim>\<open>str.lower()\<close> maps the capital letters of that range, A to Z and the Latin-1 capitals
  192 to 222 without the multiplication sign 215, to the letter 32 places further, and
  leaves every other character as it is. \<^verbatim>\<open>str.upper()\<close> does not stay in the range
  (it maps 181 and 255 beyond it, and 223 to two letters); it is a parameter, see
  \<open>pylib\<close> below.
\<close>

definition py_isspace :: "char \<Rightarrow> bool" where
  "py_isspace c =
     (let n = (of_char c :: nat)
      in (9 \<le> n \<and> n \<le> 13) \<or> (28 \<le> n \<and> n \<le> 32) \<or> n = 133 \<or> n = 160)"

definition strip :: "string \<Rightarrow> string" where
  "strip s = rev (dropWhile py_isspace (rev (dropWhile py_isspace s)))"

definition lower_char :: "char \<Rightarrow> char" where
  "lower_char c =
     (let n = (of_char c :: nat)
      in if (65 \<le> n \<and> n \<le> 90) \<or> (192 \<le> n \<and> n \<le> 222 \<and> n \<noteq> 215)
         then char_of (n + 32) else c)"

definition lower :: "string \<Rightarrow> string" where
  "lower s = map lower_char s"

text \<open>Truth value of an \<^verbatim>\<open>Optional[str]\<close>: neither \<^verbatim>\<open>None\<close> nor empty.\<close>

fun truthy :: "string option \<Rightarrow> bool" where
  "truthy None = False"
| "truthy (Some s) = (s \<noteq> [])"

text \<open>\<^verbatim>\<open>x or ""\<close> for an \<^verbatim>\<open>Optional[str]\<close>.\<close>

fun str_or_empty :: "string option \<Rightarrow> string" where
  "str_or_empty None = []"
| "str_or_empty (Some s) = s"

text \<open>\<^verbatim>\<open>str(n)\<close> of an integer, as the f-strings of the source print it.\<close>

fun str_nat :: "nat \<Rightarrow> string" where
  "str_nat n =
     (if n < 10 then [char_of (48 + n)] else str_nat (n div 10) @ [char_of (48 + n mod 10)])"

definition str_int :: "int \<Rightarrow> string" where
  "str_int i = (if i < 0 then CHR ''-'' # str_nat (nat (- i)) else str_nat (nat i))"

text \<open>\<^verbatim>\<open>s.split(sep)\<close> and \<^verbatim>\<open>sep.join(parts)\<close> for a one-character separator.\<close>

fun split_on :: "char \<Rightarrow> string \<Rightarrow> string list" where
  "split_on sep [] = [[]]"
| "split_on sep (c # cs) =
     (if c = sep then [] # split_on sep cs
      else (case split_on sep cs of
              [] \<Rightarrow> [[c]]
            | p # ps \<Rightarrow> (c # p) # ps))"

fun join_with :: "char \<Rightarrow> string list \<Rightarrow> string" where
  "join_with sep [] = []"
| "join_with sep [p] = p"
| "join_with sep (p # q # ps) = p @ sep # join_with sep (q # ps)"

text \<open>\<^verbatim>\<open>s.rsplit(".", 1)[-1]\<close>: the text after the last occurrence of the separator.\<close>

definition rsplit_last :: "char \<Rightarrow> string \<Rightarrow> string" where
  "rsplit_last sep s = rev (takeWhile (\<lambda>c. c \<noteq> sep) (rev s))"

text \<open>
  \<^verbatim>\<open>posixpath.join\<close> of two parts, \<^verbatim>\<open>posixpath.normpath\<close>, \<^verbatim>\<open>os.path.abspath\<close> relative
  to a working directory and \<^verbatim>\<open>os.path.basename\<close>. Resolution is lexical, as in the
  library; symbolic links are not modelled.
\<close>

definition os_path_join :: "string \<Rightarrow> string \<Rightarrow> string" where
  "os_path_join a b =
     (if b \<noteq> [] \<and> hd b = CHR ''/'' then b
      else if a = [] \<or> last a = CHR ''/'' then a @ b
      else a @ CHR ''/'' # b)"

fun norm_comps :: "nat \<Rightarrow> string list \<Rightarrow> string list \<Rightarrow> string list" where
  "norm_comps initial_slashes new_comps [] = new_comps"
| "norm_comps initial_slashes new_comps (cmp # comps) =
     (if cmp = [] \<or> cmp = ''.'' then norm_comps initial_slashes new_comps comps
      else if cmp \<noteq> ''..'' \<or> (initial_slashes = 0 \<and> new_comps = [])
              \<or> (new_comps \<noteq> [] \<and> last new_comps = ''..'')
           then norm_comps initial_slashes (new_comps @ [cmp]) comps
      else if new_comps \<noteq> [] then norm_comps initial_slashes (butlast new_comps) comps
      else norm_comps initial_slashes new_comps comps)"

definition normpath :: "string \<Rightarrow> string" where
  "normpath path =
     (if path = [] then ''.''
      else
        let initial_slashes =
              (if take 1 path = ''/'' then
                 (if take 2 path = ''//'' \<and> take 3 path \<noteq> ''///'' then 2 else 1)
               else (0::nat));
            comps = norm_comps initial_slashes [] (split_on CHR ''/'' path);
            p = replicate initial_slashes CHR ''/'' @ join_with CHR ''/'' comps
        in if p = [] then ''.'' else p)"

definition abspath :: "string \<Rightarrow> string \<Rightarrow> string" where
  "abspath cwd path =
     normpath (if take 1 path = ''/'' then path else os_path_join cwd path)"

definition basename :: "string \<Rightarrow> string" where
  "basename p = rsplit_last CHR ''/'' p"

section \<open>Data model\<close>

text \<open>
  The enumerations of \<^verbatim>\<open>app/models/user.py\<close> and \<^verbatim>\<open>app/models/tow_job.py\<close>, and the
  rows of the four tables. Identifiers are the uuid strings of the source; a nullable
  column is an \<open>option\<close>. Latitude, longitude and accuracy are Python floats; they are
  modelled as \<open>real\<close>, which keeps the order comparisons of the source on finite values;
  NaN and the infinities have no value here.
\<close>

datatype UserRole = OFFICER | DRIVER | DISPATCHER | ADMIN

datatype TowStatus = NEW | ASSIGNED | EN_ROUTE | ARRIVED | TOWED | CLOSED | CANCELLED

fun role_value :: "UserRole \<Rightarrow> string" where
  "role_value OFFICER = ''OFFICER''"
| "role_value DRIVER = ''DRIVER''"
| "role_value DISPATCHER = ''DISPATCHER''"
| "role_value ADMIN = ''ADMIN''"

fun status_value :: "TowStatus \<Rightarrow> string" where
  "status_value NEW = ''NEW''"
| "status_value ASSIGNED = ''ASSIGNED''"
| "status_value EN_ROUTE = ''EN_ROUTE''"
| "status_value ARRIVED = ''ARRIVED''"
| "status_value TOWED = ''TOWED''"
| "status_value CLOSED = ''CLOSED''"
| "status_value CANCELLED = ''CANCELLED''"

record User =
  user_id :: string
  name :: string
  phone :: string
  role :: UserRole
  password_hash :: string
  is_active :: bool
  user_created_at :: nat

record TowJob =
  job_id :: string
  plate_number :: string
  officer_id :: string
  status :: TowStatus
  assigned_driver_id :: "string option"
  violation_type :: "string option"
  job_notes :: "string option"
  location_lat :: real
  location_lng :: real
  location_accuracy_m :: "real option"
  created_at :: nat
  updated_at :: "nat option"

text \<open>
  A handler fails by \<^verbatim>\<open>raise HTTPException(status_code=..., detail=...)\<close>, and the error
  value keeps both fields; or by an exception that nothing catches, which the framework
  answers with 500: \<open>InternalServerError\<close> keeps the text of that exception.
\<close>

datatype http_error = HTTPException nat string | InternalServerError string

record TowJobPhoto =
  photo_id :: string
  tow_job_id :: string
  uploaded_by_user_id :: string
  photo_type :: string
  file_path :: string
  content_type :: string
  size_bytes :: nat
  lat :: "real option"
  lng :: "real option"
  accuracy_m :: "real option"
  captured_at :: "string option"
  photo_created_at :: nat

record TowJobEvent =
  event_id :: string
  ev_tow_job_id :: string
  actor_user_id :: string
  event_type :: string
  message :: "string option"
  ev_created_at :: nat

text \<open>
  The database: the four tables, each a list of rows in insertion order. A handler works
  on the rows of its SQLAlchemy session, a working copy of the tables; \<^verbatim>\<open>db.commit()\<close>
  makes the working copy the committed tables. A handler that raises before its commit
  leaves the committed tables as they were: the session ends with the request.
\<close>

record tables =
  users :: "User list"
  tow_jobs :: "TowJob list"
  tow_job_photos :: "TowJobPhoto list"
  tow_job_events :: "TowJobEvent list"

type_synonym byte = "8 word"

text \<open>
  \<^verbatim>\<open>Settings\<close> of \<^verbatim>\<open>app/core/config.py\<close> (the upload limit), and the world a request runs
  in: the committed tables, the regular files on disk keyed by absolute path, the
  directories that exist, the working directory of the process and the settings.

  What the operating system may refuse for reasons outside the model (permissions, name
  length, a full disk) is part of the world: \<open>mkdir_denied\<close>, \<open>open_denied\<close> and
  \<open>remove_denied\<close> say which calls it refuses, \<open>oserror_text\<close> is the text of the
  exception that a refused or failing call on a path raises, and \<open>write_fault\<close>, when it
  is \<open>Some (k, msg)\<close>, makes the write after \<open>k\<close> successful writes raise an exception
  whose text is \<open>msg\<close>.
\<close>

record Settings =
  MAX_UPLOAD_MB :: int

record world =
  db :: tables
  disk :: "string \<rightharpoonup> byte list"
  dirs :: "string set"
  cwd :: string
  settings :: Settings
  mkdir_denied :: "string \<Rightarrow> bool"
  open_denied :: "string \<Rightarrow> bool"
  remove_denied :: "string \<Rightarrow> bool"
  oserror_text :: "string \<Rightarrow> string"
  write_fault :: "(nat \<times> string) option"

text \<open>
  Library behaviour taken as parameters: \<^verbatim>\<open>datetime.fromisoformat\<close> (\<open>None\<close> where it
  raises; a parsed datetime is kept as an opaque string), the text an f-string prints
  for a float, and \<^verbatim>\<open>str.upper()\<close>.
\<close>

record pylib =
  fromisoformat :: "string \<Rightarrow> string option"
  float_str :: "real \<Rightarrow> string"
  str_upper :: "string \<Rightarrow> string"

section \<open>Evidence store\<close>

text \<open>
  An \<^verbatim>\<open>UploadFile\<close>: the client's file name and content type, the bytes not yet read, and
  an optional fault: \<open>Some (k, msg)\<close> makes the read after \<open>k\<close> successful reads raise
  an exception whose text is \<open>msg\<close>.

  Paths are resolved as POSIX does without symbolic links. \<^verbatim>\<open>os.makedirs\<close> of the upload
  directory fails when a regular file has its name. \<^verbatim>\<open>open(path, "wb")\<close> fails when the path
  is empty or has a NUL character, when a directory on the way to the file does not
  exist, or when the path names a directory; otherwise it creates or empties the file.
  \<^verbatim>\<open>os.remove\<close> fails on a directory and on a missing file. Each of them also fails
  where the world says that the operating system refuses.
\<close>

record UploadFile =
  filename :: "string option"
  upload_content_type :: "string option"
  data :: "byte list"
  fault :: "(nat \<times> string) option"

datatype py_exn = HTTPExc http_error | OtherExc string

definition UPLOAD_DIR :: string where
  "UPLOAD_DIR = ''uploads''"

definition guess_ext :: "string option \<Rightarrow> string" where
  "guess_ext fname =
     (case fname of
        None \<Rightarrow> []
      | Some f \<Rightarrow>
          if f = [] \<or> CHR ''.'' \<notin> set f then []
          else CHR ''.'' # lower (rsplit_last CHR ''.'' f))"

text \<open>The path built at the head of \<^verbatim>\<open>save_upload_streaming\<close> from a fresh \<^verbatim>\<open>uuid4\<close>.\<close>

definition upload_path :: "string \<Rightarrow> string option \<Rightarrow> string" where
  "upload_path uuid fname =
     (let ext = guess_ext fname;
          safe_name = uuid @ ext
      in os_path_join UPLOAD_DIR safe_name)"

text \<open>\<^verbatim>\<open>file.file.read(n)\<close>: the next at most \<open>n\<close> bytes, or the fault.\<close>

definition file_read :: "nat \<Rightarrow> UploadFile \<Rightarrow> py_exn + (byte list \<times> UploadFile)" where
  "file_read n f =
     (case fault f of
        Some (0, msg) \<Rightarrow> Inl (OtherExc msg)
      | Some (Suc k, msg) \<Rightarrow>
          Inr (take n (data f), f\<lparr>data := drop n (data f), fault := Some (k, msg)\<rparr>)
      | None \<Rightarrow> Inr (take n (data f), f\<lparr>data := drop n (data f)\<rparr>))"

definition os_path_exists :: "world \<Rightarrow> string \<Rightarrow> bool" where
  "os_path_exists w path =
     (disk w (abspath (cwd w) path) \<noteq> None \<or> abspath (cwd w) path \<in> dirs w)"

definition os_remove :: "world \<Rightarrow> string \<Rightarrow> py_exn + world" where
  "os_remove w path =
     (if disk w (abspath (cwd w) path) = None \<or> abspath (cwd w) path \<in> dirs w
         \<or> remove_denied w path
      then Inl (OtherExc (oserror_text w path))
      else Inr (w\<lparr>disk := (disk w)(abspath (cwd w) path := None)\<rparr>))"

text \<open>\<^verbatim>\<open>ensure_upload_dir\<close>: \<^verbatim>\<open>os.makedirs(UPLOAD_DIR, exist_ok=True)\<close>.\<close>

definition ensure_upload_dir :: "world \<Rightarrow> py_exn + world" where
  "ensure_upload_dir w =
     (if abspath (cwd w) UPLOAD_DIR \<in> dirs w then Inr w
      else if disk w (abspath (cwd w) UPLOAD_DIR) \<noteq> None \<or> mkdir_denied w UPLOAD_DIR
      then Inl (OtherExc (oserror_text w UPLOAD_DIR))
      else Inr (w\<lparr>dirs := insert (abspath (cwd w) UPLOAD_DIR) (dirs w)\<rparr>))"

text \<open>
  The directories on the way to a file: for \<open>a/b/c\<close> they are \<open>a\<close> and \<open>a/b\<close>, and for
  an absolute path the root comes first.
\<close>

definition dir_prefixes :: "string \<Rightarrow> string list" where
  "dir_prefixes path =
     (let comps = split_on CHR ''/'' path
      in map (\<lambda>k. let p = join_with CHR ''/'' (take k comps) in if p = [] then ''/'' else p)
           [1..<length comps])"

definition open_ok :: "world \<Rightarrow> string \<Rightarrow> bool" where
  "open_ok w path =
     (path \<noteq> [] \<and> CHR 0x00 \<notin> set path
      \<and> list_all (\<lambda>d. abspath (cwd w) d \<in> dirs w) (dir_prefixes path)
      \<and> abspath (cwd w) path \<notin> dirs w
      \<and> \<not> open_denied w path)"

definition open_wb :: "world \<Rightarrow> string \<Rightarrow> py_exn + world" where
  "open_wb w path =
     (if open_ok w path then Inr (w\<lparr>disk := (disk w)(abspath (cwd w) path \<mapsto> [])\<rparr>)
      else Inl (OtherExc (oserror_text w path)))"

text \<open>\<^verbatim>\<open>out.write(chunk)\<close>: the bytes are appended to the file, or the write fault is raised.\<close>

definition append_bytes :: "world \<Rightarrow> string \<Rightarrow> byte list \<Rightarrow> world" where
  "append_bytes w path chunk =
     w\<lparr>disk := (disk w)(abspath (cwd w) path \<mapsto>
          (case disk w (abspath (cwd w) path) of None \<Rightarrow> chunk | Some old \<Rightarrow> old @ chunk))\<rparr>"

definition file_write :: "world \<Rightarrow> string \<Rightarrow> byte list \<Rightarrow> py_exn + world" where
  "file_write w path chunk =
     (case write_fault w of
        Some (0, msg) \<Rightarrow> Inl (OtherExc msg)
      | Some (Suc k, msg) \<Rightarrow> Inr ((append_bytes w path chunk)\<lparr>write_fault := Some (k, msg)\<rparr>)
      | None \<Rightarrow> Inr (append_bytes w path chunk))"

text \<open>
  The \<^verbatim>\<open>while True\<close> loop of \<^verbatim>\<open>save_upload_streaming\<close>. It ends: a read that returns
  bytes shortens what is left of the upload.
\<close>

function stream_loop ::
  "world \<Rightarrow> string \<Rightarrow> int \<Rightarrow> UploadFile \<Rightarrow> nat \<Rightarrow> world \<times> (py_exn + nat)" where
  "stream_loop w path max_bytes f bytes_written =
     (case file_read (1024 * 1024) f of
        Inl e \<Rightarrow> (w, Inl e)
      | Inr (chunk, f') \<Rightarrow>
          if chunk = [] then (w, Inr bytes_written)
          else
            let bytes_written' = bytes_written + length chunk
            in if int bytes_written' > max_bytes then
                 (w, Inl (HTTPExc (HTTPException 413
                    (''File too large. Max is '' @ str_int (MAX_UPLOAD_MB (settings w)) @ ''MB.''))))
               else (case file_write w path chunk of
                       Inl e \<Rightarrow> (w, Inl e)
                     | Inr w' \<Rightarrow> stream_loop w' path max_bytes f' bytes_written'))"
  by pat_completeness auto
termination
  by (relation "measure (\<lambda>(w, path, max_bytes, f, bytes_written). length (data f))")
     (auto simp: file_read_def split: option.splits nat.splits prod.splits)

declare stream_loop.simps [simp del]

text \<open>
  The cleanup of the two \<^verbatim>\<open>except\<close> branches: the file is removed if the path exists, and
  an exception of the removal is passed over.
\<close>

definition cleanup :: "world \<Rightarrow> string \<Rightarrow> world" where
  "cleanup w path =
     (if os_path_exists w path
      then (case os_remove w path of Inl e \<Rightarrow> w | Inr w' \<Rightarrow> w')
      else w)"

text \<open>
  \<^verbatim>\<open>save_upload_streaming\<close>. The directory is made outside the \<^verbatim>\<open>try\<close>, so its exception
  reaches the framework; \<^verbatim>\<open>open\<close> and the loop are inside.
\<close>

definition save_upload_streaming ::
  "world \<Rightarrow> string \<Rightarrow> UploadFile \<Rightarrow> world \<times> (http_error + (string \<times> nat))" where
  "save_upload_streaming w uuid file =
     (case ensure_upload_dir w of
        Inl (HTTPExc e) \<Rightarrow> (w, Inl e)
      | Inl (OtherExc msg) \<Rightarrow> (w, Inl (InternalServerError msg))
      | Inr w0 \<Rightarrow>
          let path = upload_path uuid (filename file);
              max_bytes = MAX_UPLOAD_MB (settings w0) * 1024 * 1024
          in case (case open_wb w0 path of
                     Inl e \<Rightarrow> (w0, Inl e)
                   | Inr w1 \<Rightarrow> stream_loop w1 path max_bytes file 0) of
               (w', Inr bytes_written) \<Rightarrow> (w', Inr (path, bytes_written))
             | (w', Inl (HTTPExc e)) \<Rightarrow> (cleanup w' path, Inl e)
             | (w', Inl (OtherExc msg)) \<Rightarrow>
                 (cleanup w' path, Inl (HTTPException 500 (''Upload failed: '' @ msg))))"

section \<open>Access control guard\<close>

text \<open>
  \<^verbatim>\<open>require_roles\<close> of \<^verbatim>\<open>app/core/auth.py\<close>, applied to the user that
  \<^verbatim>\<open>get_current_user\<close> resolved, and \<^verbatim>\<open>_assert_job_access\<close> of
  \<^verbatim>\<open>app/routers/tow_jobs.py\<close>: each returns, or raises 403.
\<close>

definition require_roles :: "UserRole list \<Rightarrow> User \<Rightarrow> http_error + User" where
  "require_roles roles user =
     (if role user \<notin> set roles then Inl (HTTPException 403 ''Forbidden'') else Inr user)"

definition assert_job_access :: "User \<Rightarrow> TowJob \<Rightarrow> http_error + unit" where
  "assert_job_access user job =
     (if role user \<in> {DISPATCHER, ADMIN} then Inr ()
      else if role user = OFFICER \<and> officer_id job = user_id user then Inr ()
      else if role user = DRIVER \<and> assigned_driver_id job = Some (user_id user) then Inr ()
      else Inl (HTTPException 403 ''Not your job''))"

text \<open>
  The rule table of the specification, kept apart from the code: an ordered list of
  rules, each a condition and a verdict, the first rule whose condition holds deciding.
\<close>

datatype verdict = Allow | Deny

definition access_rule_table :: "(User \<Rightarrow> TowJob \<Rightarrow> bool) list" where
  "access_rule_table =
     [\<lambda>u j. role u = DISPATCHER \<or> role u = ADMIN,
      \<lambda>u j. role u = OFFICER \<and> user_id u = officer_id j,
      \<lambda>u j. role u = DRIVER \<and> Some (user_id u) = assigned_driver_id j]"

fun first_match :: "(User \<Rightarrow> TowJob \<Rightarrow> bool) list \<Rightarrow> User \<Rightarrow> TowJob \<Rightarrow> verdict" where
  "first_match [] u j = Deny"
| "first_match (r # rs) u j = (if r u j then Allow else first_match rs u j)"

section \<open>Tow job lifecycle engine\<close>

text \<open>
  Session operations. \<^verbatim>\<open>_log_event\<close> adds an event row; the event's uuid and the
  database clock that fills \<^verbatim>\<open>created_at\<close> are arguments, here and in every handler, in
  the order the source draws them. \<open>put_job\<close> is the UPDATE that the commit flushes for
  a job loaded from the session and assigned to: a row that did not change is not
  written, a row that did gets \<^verbatim>\<open>updated_at\<close> from the clock.
\<close>

definition log_event ::
  "tables \<Rightarrow> string \<Rightarrow> nat \<Rightarrow> string \<Rightarrow> string \<Rightarrow> string \<Rightarrow> string option \<Rightarrow> tables" where
  "log_event s uuid now jid actor etype msg =
     s\<lparr>tow_job_events := tow_job_events s @
        [\<lparr>event_id = uuid, ev_tow_job_id = jid, actor_user_id = actor,
          event_type = etype, message = msg, ev_created_at = now\<rparr>]\<rparr>"

definition query_job :: "tables \<Rightarrow> string \<Rightarrow> TowJob option" where
  "query_job s jid = find (\<lambda>j. job_id j = jid) (tow_jobs s)"

definition flush_job :: "nat \<Rightarrow> TowJob \<Rightarrow> TowJob \<Rightarrow> TowJob" where
  "flush_job now old new = (if new = old then old else new\<lparr>updated_at := Some now\<rparr>)"

definition put_job :: "tables \<Rightarrow> nat \<Rightarrow> TowJob \<Rightarrow> TowJob \<Rightarrow> tables" where
  "put_job s now old new =
     s\<lparr>tow_jobs := map (\<lambda>j. if job_id j = job_id old then flush_job now old new else j) (tow_jobs s)\<rparr>"

definition parse_iso_datetime :: "pylib \<Rightarrow> string option \<Rightarrow> http_error + string option" where
  "parse_iso_datetime lib dt =
     (if \<not> truthy dt then Inr None
      else
        let s = strip (str_or_empty dt);
            s' = (if s \<noteq> [] \<and> last s = CHR ''Z'' then butlast s @ ''+00:00'' else s)
        in case fromisoformat lib s' of
             Some d \<Rightarrow> Inr (Some d)
           | None \<Rightarrow> Inl (HTTPException 400
               ''captured_at must be ISO8601 datetime (e.g. 2026-01-19T12:34:56Z)''))"

text \<open>
  The request schemas of \<^verbatim>\<open>app/schemas/tow_job.py\<close>. The field types are those of the
  schema, so a body that lacks a required field or carries a status outside the
  enumeration has no value here; the length bounds are the check \<open>TowJobCreate_valid\<close>.
\<close>

record TowJobCreate =
  c_plate_number :: string
  c_location_lat :: real
  c_location_lng :: real
  c_location_accuracy_m :: "real option"
  c_violation_type :: "string option"
  c_notes :: "string option"

definition TowJobCreate_valid :: "TowJobCreate \<Rightarrow> bool" where
  "TowJobCreate_valid p = (2 \<le> length (c_plate_number p) \<and> length (c_plate_number p) \<le> 32)"

record TowJobAssign =
  driver_id :: string

record TowJobStatusUpdate =
  su_status :: TowStatus
  su_notes :: "string option"

definition create_tow_job ::
  "world \<Rightarrow> pylib \<Rightarrow> User \<Rightarrow> TowJobCreate \<Rightarrow> string \<Rightarrow> string \<Rightarrow> nat
     \<Rightarrow> world \<times> (http_error + TowJob)" where
  "create_tow_job w lib caller payload job_uuid ev_uuid now =
     (case require_roles [OFFICER, ADMIN] caller of
        Inl e \<Rightarrow> (w, Inl e)
      | Inr user \<Rightarrow>
          if \<not> TowJobCreate_valid payload then (w, Inl (HTTPException 422 ''Unprocessable Entity''))
          else
            let job = \<lparr>job_id = job_uuid,
                       plate_number = str_upper lib (strip (c_plate_number payload)),
                       officer_id = user_id user,
                       status = NEW,
                       assigned_driver_id = None,
                       violation_type = c_violation_type payload,
                       job_notes = c_notes payload,
                       location_lat = c_location_lat payload,
                       location_lng = c_location_lng payload,
                       location_accuracy_m = c_location_accuracy_m payload,
                       created_at = now,
                       updated_at = None\<rparr>;
                s1 = (db w)\<lparr>tow_jobs := tow_jobs (db w) @ [job]\<rparr>;
                s2 = log_event s1 ev_uuid now (job_id job) (user_id user) ''CREATED''
                       (Some (''Job created for plate '' @ plate_number job))
            in (w\<lparr>db := s2\<rparr>, Inr job))"

definition assign_driver ::
  "world \<Rightarrow> User \<Rightarrow> string \<Rightarrow> TowJobAssign \<Rightarrow> string \<Rightarrow> nat \<Rightarrow> world \<times> (http_error + TowJob)" where
  "assign_driver w caller jid payload ev_uuid now =
     (case require_roles [DISPATCHER, ADMIN] caller of
        Inl e \<Rightarrow> (w, Inl e)
      | Inr user \<Rightarrow>
          (case query_job (db w) jid of
             None \<Rightarrow> (w, Inl (HTTPException 404 ''Tow job not found''))
           | Some job \<Rightarrow>
               (case find (\<lambda>u. user_id u = driver_id payload \<and> role u = DRIVER \<and> is_active u)
                       (users (db w)) of
                  None \<Rightarrow> (w, Inl (HTTPException 400 ''Driver not found''))
                | Some driver \<Rightarrow>
                    let job' = job\<lparr>assigned_driver_id := Some (user_id driver), status := ASSIGNED\<rparr>;
                        s1 = put_job (db w) now job job';
                        s2 = log_event s1 ev_uuid now (job_id job') (user_id user) ''ASSIGNED''
                               (Some (''Assigned to driver '' @ user_id driver))
                    in (w\<lparr>db := s2\<rparr>, Inr (flush_job now job job')))))"

definition update_status ::
  "world \<Rightarrow> User \<Rightarrow> string \<Rightarrow> TowJobStatusUpdate \<Rightarrow> string \<Rightarrow> nat
     \<Rightarrow> world \<times> (http_error + TowJob)" where
  "update_status w user jid payload ev_uuid now =
     (case query_job (db w) jid of
        None \<Rightarrow> (w, Inl (HTTPException 404 ''Tow job not found''))
      | Some job \<Rightarrow>
          (case assert_job_access user job of
             Inl e \<Rightarrow> (w, Inl e)
           | Inr _ \<Rightarrow>
               let old = status_value (status job);
                   job1 = job\<lparr>status := su_status payload\<rparr>;
                   job2 =
                     (if truthy (su_notes payload) then
                        let existing = strip (str_or_empty (job_notes job1));
                            line = ''['' @ role_value (role user) @ ''] '' @ strip (str_or_empty (su_notes payload))
                        in job1\<lparr>job_notes :=
                             Some (if existing \<noteq> [] then strip (existing @ CHR 0x0A # line) else line)\<rparr>
                      else job1);
                   s1 = put_job (db w) now job job2;
                   s2 = log_event s1 ev_uuid now (job_id job2) (user_id user) ''STATUS_CHANGED''
                          (Some (''Status '' @ old @ '' -> '' @ status_value (status job2)
                                 @ (if truthy (su_notes payload)
                                    then '' | '' @ strip (str_or_empty (su_notes payload)) else [])))
               in (w\<lparr>db := s2\<rparr>, Inr (flush_job now job job2))))"

text \<open>
  The photo handlers. The form fields of \<^verbatim>\<open>upload_job_photo\<close> and of
  \<^verbatim>\<open>submit_evidence\<close> are records; the checks run in the order of the source.
\<close>

definition allowed_types :: "string list" where
  "allowed_types = [''BEFORE'', ''AFTER'', ''PLATE_CLOSEUP'', ''OTHER'']"

definition allowed_ct :: "string list" where
  "allowed_ct = [''image/jpeg'', ''image/png'', ''image/webp'']"

definition photo_type_detail :: string where
  "photo_type_detail =
     ''photo_type must be one of ['' @ [CHR 0x27] @ ''AFTER'' @ [CHR 0x27] @ '', ''
       @ [CHR 0x27] @ ''BEFORE'' @ [CHR 0x27] @ '', ''
       @ [CHR 0x27] @ ''OTHER'' @ [CHR 0x27] @ '', ''
       @ [CHR 0x27] @ ''PLATE_CLOSEUP'' @ [CHR 0x27] @ '']''"

definition content_type_ok :: "string option \<Rightarrow> bool" where
  "content_type_ok ct = (case ct of None \<Rightarrow> False | Some c \<Rightarrow> c \<in> set allowed_ct)"

definition opt_float_str :: "pylib \<Rightarrow> real option \<Rightarrow> string" where
  "opt_float_str lib x = (case x of None \<Rightarrow> ''None'' | Some r \<Rightarrow> float_str lib r)"

definition photo_geo_suffix :: "pylib \<Rightarrow> real option \<Rightarrow> real option \<Rightarrow> real option \<Rightarrow> string" where
  "photo_geo_suffix lib la lo acc =
     (if la \<noteq> None
      then '' | photo_geo='' @ opt_float_str lib la @ '','' @ opt_float_str lib lo
             @ '' acc='' @ opt_float_str lib acc
      else [])"

text \<open>\<^verbatim>\<open>x is not None and not (lo <= x <= hi)\<close>.\<close>

definition outside_range :: "real \<Rightarrow> real \<Rightarrow> real option \<Rightarrow> bool" where
  "outside_range lo hi x = (case x of None \<Rightarrow> False | Some v \<Rightarrow> \<not> (lo \<le> v \<and> v \<le> hi))"

definition download_url :: "string \<Rightarrow> string \<Rightarrow> string" where
  "download_url jid pid = ''/tow-jobs/'' @ jid @ ''/photos/'' @ pid @ ''/download''"

record PhotoForm =
  pf_photo :: UploadFile
  pf_photo_type :: string
  pf_lat :: "real option"
  pf_lng :: "real option"
  pf_accuracy_m :: "real option"
  pf_captured_at :: "string option"

definition upload_job_photo ::
  "world \<Rightarrow> pylib \<Rightarrow> User \<Rightarrow> string \<Rightarrow> PhotoForm \<Rightarrow> string \<Rightarrow> string \<Rightarrow> string \<Rightarrow> nat
     \<Rightarrow> world \<times> (http_error + (TowJobPhoto \<times> string))" where
  "upload_job_photo w lib user jid form file_uuid photo_uuid ev_uuid now =
     (case query_job (db w) jid of
        None \<Rightarrow> (w, Inl (HTTPException 404 ''Tow job not found''))
      | Some job \<Rightarrow>
          (case assert_job_access user job of
             Inl e \<Rightarrow> (w, Inl e)
           | Inr _ \<Rightarrow>
               if pf_photo_type form \<notin> set allowed_types then
                 (w, Inl (HTTPException 400 photo_type_detail))
               else if \<not> content_type_ok (upload_content_type (pf_photo form)) then
                 (w, Inl (HTTPException 400 ''Only jpeg/png/webp images are allowed''))
               else if (pf_lat form = None) \<noteq> (pf_lng form = None) then
                 (w, Inl (HTTPException 400 ''Provide both lat and lng, or neither''))
               else if outside_range (- 90) 90 (pf_lat form) then
                 (w, Inl (HTTPException 400 ''lat must be between -90 and 90''))
               else if outside_range (- 180) 180 (pf_lng form) then
                 (w, Inl (HTTPException 400 ''lng must be between -180 and 180''))
               else
                 (case parse_iso_datetime lib (pf_captured_at form) of
                    Inl e \<Rightarrow> (w, Inl e)
                  | Inr captured_dt \<Rightarrow>
                      (case save_upload_streaming w file_uuid (pf_photo form) of
                         (w1, Inl e) \<Rightarrow> (w1, Inl e)
                       | (w1, Inr (stored_path, nbytes)) \<Rightarrow>
                           let rec = \<lparr>photo_id = photo_uuid,
                                      tow_job_id = job_id job,
                                      uploaded_by_user_id = user_id user,
                                      photo_type = pf_photo_type form,
                                      file_path = stored_path,
                                      content_type = str_or_empty (upload_content_type (pf_photo form)),
                                      size_bytes = nbytes,
                                      lat = pf_lat form,
                                      lng = pf_lng form,
                                      accuracy_m = pf_accuracy_m form,
                                      captured_at = captured_dt,
                                      photo_created_at = now\<rparr>;
                               s1 = (db w)\<lparr>tow_job_photos := tow_job_photos (db w) @ [rec]\<rparr>;
                               s2 = log_event s1 ev_uuid now (job_id job) (user_id user) ''PHOTO_UPLOADED''
                                      (Some (pf_photo_type form @ '' uploaded ('' @ str_nat nbytes @ '' bytes)''
                                             @ photo_geo_suffix lib (pf_lat form) (pf_lng form)
                                                 (pf_accuracy_m form)))
                           in (w1\<lparr>db := s2\<rparr>, Inr (rec, download_url (job_id job) (photo_id rec)))))))"

record EvidenceForm =
  ef_plate_number :: string
  ef_job_lat :: real
  ef_job_lng :: real
  ef_job_accuracy_m :: "real option"
  ef_violation_type :: "string option"
  ef_notes :: "string option"
  ef_photo :: UploadFile
  ef_photo_type :: string
  ef_photo_lat :: "real option"
  ef_photo_lng :: "real option"
  ef_photo_accuracy_m :: "real option"
  ef_captured_at :: "string option"

definition submit_evidence ::
  "world \<Rightarrow> pylib \<Rightarrow> User \<Rightarrow> EvidenceForm \<Rightarrow> string \<Rightarrow> string \<Rightarrow> string \<Rightarrow> string \<Rightarrow> string
     \<Rightarrow> nat \<Rightarrow> world \<times> (http_error + (TowJob \<times> TowJobPhoto \<times> string))" where
  "submit_evidence w lib caller form job_uuid ev1_uuid file_uuid photo_uuid ev2_uuid now =
     (case require_roles [OFFICER, ADMIN] caller of
        Inl e \<Rightarrow> (w, Inl e)
      | Inr user \<Rightarrow>
          let plate = str_upper lib (strip (ef_plate_number form)) in
          if plate = [] then (w, Inl (HTTPException 400 ''plate_number is required''))
          else if \<not> (- 90 \<le> ef_job_lat form \<and> ef_job_lat form \<le> 90) then
            (w, Inl (HTTPException 400 ''job_lat must be between -90 and 90''))
          else if \<not> (- 180 \<le> ef_job_lng form \<and> ef_job_lng form \<le> 180) then
            (w, Inl (HTTPException 400 ''job_lng must be between -180 and 180''))
          else if (ef_photo_lat form = None) \<noteq> (ef_photo_lng form = None) then
            (w, Inl (HTTPException 400 ''Provide both photo_lat and photo_lng, or neither''))
          else if outside_range (- 90) 90 (ef_photo_lat form) then
            (w, Inl (HTTPException 400 ''photo_lat must be between -90 and 90''))
          else if outside_range (- 180) 180 (ef_photo_lng form) then
            (w, Inl (HTTPException 400 ''photo_lng must be between -180 and 180''))
          else if \<not> content_type_ok (upload_content_type (ef_photo form)) then
            (w, Inl (HTTPException 400 ''Only jpeg/png/webp images are allowed''))
          else if ef_photo_type form \<notin> set allowed_types then
            (w, Inl (HTTPException 400 photo_type_detail))
          else
            (case parse_iso_datetime lib (ef_captured_at form) of
               Inl e \<Rightarrow> (w, Inl e)
             | Inr captured_dt \<Rightarrow>
                 let job = \<lparr>job_id = job_uuid,
                            plate_number = plate,
                            officer_id = user_id user,
                            status = NEW,
                            assigned_driver_id = None,
                            violation_type = ef_violation_type form,
                            job_notes = ef_notes form,
                            location_lat = ef_job_lat form,
                            location_lng = ef_job_lng form,
                            location_accuracy_m = ef_job_accuracy_m form,
                            created_at = now,
                            updated_at = None\<rparr>;
                     s1 = (db w)\<lparr>tow_jobs := tow_jobs (db w) @ [job]\<rparr>;
                     s2 = log_event s1 ev1_uuid now (job_id job) (user_id user) ''CREATED''
                            (Some (''Job created via submit-evidence for plate '' @ plate))
                 in (case save_upload_streaming w file_uuid (ef_photo form) of
                       (w1, Inl e) \<Rightarrow> (w1, Inl e)
                     | (w1, Inr (stored_path, nbytes)) \<Rightarrow>
                         let rec = \<lparr>photo_id = photo_uuid,
                                    tow_job_id = job_id job,
                                    uploaded_by_user_id = user_id user,
                                    photo_type = ef_photo_type form,
                                    file_path = stored_path,
                                    content_type = str_or_empty (upload_content_type (ef_photo form)),
                                    size_bytes = nbytes,
                                    lat = ef_photo_lat form,
                                    lng = ef_photo_lng form,
                                    accuracy_m = ef_photo_accuracy_m form,
                                    captured_at = captured_dt,
                                    photo_created_at = now\<rparr>;
                             s3 = s2\<lparr>tow_job_photos := tow_job_photos s2 @ [rec]\<rparr>;
                             s4 = log_event s3 ev2_uuid now (job_id job) (user_id user) ''PHOTO_UPLOADED''
                                    (Some (ef_photo_type form @ '' uploaded via submit-evidence (''
                                           @ str_nat nbytes @ '' bytes)''
                                           @ photo_geo_suffix lib (ef_photo_lat form) (ef_photo_lng form)
                                               (ef_photo_accuracy_m form)))
                         in (w1\<lparr>db := s4\<rparr>,
                             Inr (job, rec, download_url (job_id job) (photo_id rec))))))"

text \<open>
  The read paths: photo download, evidence bundle and audit trail. \<^verbatim>\<open>FileResponse\<close> raises
  when the path is not a regular file, and nothing catches that.
\<close>

definition download_job_photo ::
  "world \<Rightarrow> User \<Rightarrow> string \<Rightarrow> string \<Rightarrow> http_error + (string \<times> string \<times> string)" where
  "download_job_photo w user jid pid =
     (case query_job (db w) jid of
        None \<Rightarrow> Inl (HTTPException 404 ''Tow job not found'')
      | Some job \<Rightarrow>
          (case assert_job_access user job of
             Inl e \<Rightarrow> Inl e
           | Inr _ \<Rightarrow>
               (case find (\<lambda>p. photo_id p = pid \<and> tow_job_id p = job_id job)
                       (tow_job_photos (db w)) of
                  None \<Rightarrow> Inl (HTTPException 404 ''Photo not found'')
                | Some rec \<Rightarrow>
                    let abs_path = abspath (cwd w) (file_path rec);
                        uploads_abs = abspath (cwd w) ''uploads'';
                        pre = uploads_abs @ ''/''
                    in if take (length pre) abs_path \<noteq> pre then
                         Inl (HTTPException 400 ''Invalid file path'')
                       else if \<not> os_path_exists w abs_path then
                         Inl (HTTPException 404 ''File missing on server'')
                       else if abs_path \<in> dirs w then
                         Inl (InternalServerError
                                (''File at path '' @ abs_path @ '' is not a file.''))
                       else Inr (abs_path, content_type rec, basename abs_path))))"

definition get_job_evidence ::
  "world \<Rightarrow> User \<Rightarrow> string \<Rightarrow> http_error + (TowJob \<times> (TowJobPhoto \<times> string) list)" where
  "get_job_evidence w user jid =
     (case query_job (db w) jid of
        None \<Rightarrow> Inl (HTTPException 404 ''Tow job not found'')
      | Some job \<Rightarrow>
          (case assert_job_access user job of
             Inl e \<Rightarrow> Inl e
           | Inr _ \<Rightarrow>
               let photos = filter (\<lambda>p. tow_job_id p = job_id job) (tow_job_photos (db w))
               in Inr (job, map (\<lambda>p. (p, download_url (job_id job) (photo_id p))) photos)))"

definition get_job_events :: "world \<Rightarrow> User \<Rightarrow> string \<Rightarrow> http_error + TowJobEvent list" where
  "get_job_events w user jid =
     (case query_job (db w) jid of
        None \<Rightarrow> Inl (HTTPException 404 ''Tow job not found'')
      | Some job \<Rightarrow>
          (case assert_job_access user job of
             Inl e \<Rightarrow> Inl e
           | Inr _ \<Rightarrow>
               Inr (sort_key ev_created_at
                      (filter (\<lambda>e. ev_tow_job_id e = job_id job) (tow_job_events (db w))))))"

section \<open>User administration\<close>

text \<open>
  \<^verbatim>\<open>AdminUserUpdate\<close> and \<^verbatim>\<open>admin_update_user\<close> of \<^verbatim>\<open>app/routers/admin.py\<close>. The user
  row is modified in the session and written by the commit at the end.
\<close>

record AdminUserUpdate =
  au_name :: "string option"
  au_phone :: "string option"
  au_role :: "UserRole option"
  au_is_active :: "bool option"

definition AdminUserUpdate_valid :: "AdminUserUpdate \<Rightarrow> bool" where
  "AdminUserUpdate_valid p =
     ((case au_name p of None \<Rightarrow> True | Some n \<Rightarrow> 1 \<le> length n \<and> length n \<le> 100)
      \<and> (case au_phone p of None \<Rightarrow> True | Some n \<Rightarrow> 6 \<le> length n \<and> length n \<le> 32))"

definition put_user :: "tables \<Rightarrow> User \<Rightarrow> tables" where
  "put_user s u = s\<lparr>users := map (\<lambda>x. if user_id x = user_id u then u else x) (users s)\<rparr>"

definition admin_update_user ::
  "world \<Rightarrow> User \<Rightarrow> string \<Rightarrow> AdminUserUpdate \<Rightarrow> world \<times> (http_error + User)" where
  "admin_update_user w caller uid payload =
     (case require_roles [ADMIN] caller of
        Inl e \<Rightarrow> (w, Inl e)
      | Inr admin \<Rightarrow>
          if \<not> AdminUserUpdate_valid payload then (w, Inl (HTTPException 422 ''Unprocessable Entity''))
          else
            (case find (\<lambda>u. user_id u = uid) (users (db w)) of
               None \<Rightarrow> (w, Inl (HTTPException 404 ''User not found''))
             | Some user \<Rightarrow>
                 if user_id user = user_id admin \<and> au_role payload \<noteq> None
                    \<and> au_role payload \<noteq> Some ADMIN then
                   (w, Inl (HTTPException 400 ''You cannot change your own role''))
                 else if user_id user = user_id admin \<and> au_is_active payload = Some False then
                   (w, Inl (HTTPException 400 ''You cannot deactivate your own account''))
                 else if au_phone payload \<noteq> None \<and> strip (str_or_empty (au_phone payload)) = [] then
                   (w, Inl (HTTPException 400 ''phone cannot be blank''))
                 else if au_phone payload \<noteq> None
                         \<and> find (\<lambda>u. phone u = strip (str_or_empty (au_phone payload))
                                        \<and> user_id u \<noteq> user_id user) (users (db w)) \<noteq> None then
                   (w, Inl (HTTPException 409 ''Another user already has this phone''))
                 else
                   let u1 = (case au_phone payload of None \<Rightarrow> user
                             | Some ph \<Rightarrow> user\<lparr>phone := strip ph\<rparr>);
                       u2 = (case au_name payload of None \<Rightarrow> u1 | Some n \<Rightarrow> u1\<lparr>name := strip n\<rparr>);
                       u3 = (case au_role payload of None \<Rightarrow> u2 | Some r \<Rightarrow> u2\<lparr>role := r\<rparr>);
                       u4 = (case au_is_active payload of None \<Rightarrow> u3 | Some a \<Rightarrow> u3\<lparr>is_active := a\<rparr>)
                   in (w\<lparr>db := put_user (db w) u4\<rparr>, Inr u4)))"

section \<open>Example data\<close>

text \<open>A small world used to run the handlers on concrete inputs.\<close>

definition ex_officer :: User where
  "ex_officer = \<lparr>user_id = ''u-officer'', name = ''Asha'', phone = ''0630000001'', role = OFFICER,
     password_hash = ''h1'', is_active = True, user_created_at = 1\<rparr>"

definition ex_driver :: User where
  "ex_driver = \<lparr>user_id = ''u-driver'', name = ''Bile'', phone = ''0630000002'', role = DRIVER,
     password_hash = ''h2'', is_active = True, user_created_at = 1\<rparr>"

definition ex_dispatcher :: User where
  "ex_dispatcher = \<lparr>user_id = ''u-dispatch'', name = ''Cawo'', phone = ''0630000003'',
     role = DISPATCHER, password_hash = ''h3'', is_active = True, user_created_at = 1\<rparr>"

definition ex_admin :: User where
  "ex_admin = \<lparr>user_id = ''u-admin'', name = ''Deeq'', phone = ''0630000004'', role = ADMIN,
     password_hash = ''h4'', is_active = True, user_created_at = 1\<rparr>"

definition ex_job :: TowJob where
  "ex_job = \<lparr>job_id = ''j1'', plate_number = ''ABC123'', officer_id = ''u-officer'',
     status = CLOSED, assigned_driver_id = Some ''u-driver'', violation_type = None,
     job_notes = None, location_lat = 2.05, location_lng = 45.33, location_accuracy_m = None,
     created_at = 2, updated_at = None\<rparr>"

definition ex_world :: world where
  "ex_world = \<lparr>db = \<lparr>users = [ex_officer, ex_driver, ex_dispatcher, ex_admin],
                       tow_jobs = [ex_job], tow_job_photos = [], tow_job_events = []\<rparr>,
                disk = Map.empty, dirs = {''/'', ''/srv'', ''/srv/app''}, cwd = ''/srv/app'',
                settings = \<lparr>MAX_UPLOAD_MB = 8\<rparr>,
                mkdir_denied = (\<lambda>p. False), open_denied = (\<lambda>p. False),
                remove_denied = (\<lambda>p. False),
                oserror_text = (\<lambda>p. ''[Errno 2] No such file or directory: '' @ [CHR 0x27] @ p @ [CHR 0x27]),
                write_fault = None\<rparr>"

text \<open>
  The library parameters of the examples; \<open>str_upper\<close> is \<^verbatim>\<open>str.upper()\<close> on ASCII text,
  which is what the examples pass to it.
\<close>

definition ex_lib :: pylib where
  "ex_lib = \<lparr>fromisoformat = (\<lambda>s. if s = [] then None else Some s),
              float_str = (\<lambda>r. ''0.0''),
              str_upper = map (\<lambda>c. if 97 \<le> (of_char c :: nat) \<and> (of_char c :: nat) \<le> 122
                                   then char_of ((of_char c :: nat) - 32) else c)\<rparr>"

text \<open>The example world after \<^verbatim>\<open>ensure_upload_dir\<close> has made the upload directory.\<close>

definition ex_world0 :: world where
  "ex_world0 = ex_world\<lparr>dirs := insert ''/srv/app/uploads'' (dirs ex_world)\<rparr>"

text \<open>An upload whose client file name has a slash after its last dot.\<close>

definition ex_file_slash :: UploadFile where
  "ex_file_slash = \<lparr>filename = Some ''x./etc/cron'', upload_content_type = Some ''image/png'',
     data = [1, 2, 3], fault = None\<rparr>"



definition ex_file_small :: UploadFile where
  "ex_file_small = \<lparr>filename = Some ''photo.PNG'', upload_content_type = Some ''image/png'',
     data = [1, 2, 3], fault = None\<rparr>"

definition ex_file_fault :: UploadFile where
  "ex_file_fault = \<lparr>filename = Some ''photo.PNG'', upload_content_type = Some ''image/png'',
     data = [1, 2, 3], fault = Some (0, ''disk full'')\<rparr>"

definition ex_form :: "UploadFile \<Rightarrow> EvidenceForm" where
  "ex_form file = \<lparr>ef_plate_number = ''abc123'', ef_job_lat = 2.05, ef_job_lng = 45.33,
     ef_job_accuracy_m = None, ef_violation_type = None, ef_notes = None, ef_photo = file,
     ef_photo_type = ''PLATE_CLOSEUP'', ef_photo_lat = None, ef_photo_lng = None,
     ef_photo_accuracy_m = None, ef_captured_at = None\<rparr>"

text \<open>A job creation body that passes the schema with a location outside both ranges.\<close>

definition ex_bad_create :: TowJobCreate where
  "ex_bad_create = \<lparr>c_plate_number = ''abc123'', c_location_lat = 123, c_location_lng = 500,
     c_location_accuracy_m = None, c_violation_type = None, c_notes = None\<rparr>"

section \<open>Reading a status message back\<close>

text \<open>
  A reader for the message that \<^verbatim>\<open>update_status\<close> logs: the word after the prefix
  \<open>Status\<close> and the word after the arrow. It is used to state that the message
  determines both status values.
\<close>

definition parse_status_message :: "string \<Rightarrow> string \<times> string" where
  "parse_status_message m =
     (let r = drop 7 m;
          old = takeWhile (\<lambda>c. c \<noteq> CHR '' '') r;
          r2 = drop (length old + 4) r;
          new = takeWhile (\<lambda>c. c \<noteq> CHR '' '') r2
      in (old, new))"

section \<open>The access guard follows the rule table\<close>

lemma first_match_table:
  "first_match access_rule_table u j = Allow \<longleftrightarrow>
     (role u = DISPATCHER \<or> role u = ADMIN)
     \<or> (role u = OFFICER \<and> user_id u = officer_id j)
     \<or> (role u = DRIVER \<and> Some (user_id u) = assigned_driver_id j)"
  by (simp add: access_rule_table_def)

text \<open>
  Claim C1. For every caller and every job the decision of \<^verbatim>\<open>_assert_job_access\<close> is the
  one of the ordered rule table, first match winning: DISPATCHER and ADMIN are allowed,
  an OFFICER exactly when their id is the job's \<^verbatim>\<open>officer_id\<close>, a DRIVER exactly when
  their id is the job's \<^verbatim>\<open>assigned_driver_id\<close>, and every other combination is refused
  with 403.
\<close>

theorem job_access_rule_table:
  "assert_job_access u j =
     (case first_match access_rule_table u j of
        Allow \<Rightarrow> Inr ()
      | Deny \<Rightarrow> Inl (HTTPException 403 ''Not your job''))
   \<and> assert_job_access u j =
     (case role u of
        DISPATCHER \<Rightarrow> Inr ()
      | ADMIN \<Rightarrow> Inr ()
      | OFFICER \<Rightarrow> if user_id u = officer_id j then Inr ()
                   else Inl (HTTPException 403 ''Not your job'')
      | DRIVER \<Rightarrow> if assigned_driver_id j = Some (user_id u) then Inr ()
                  else Inl (HTTPException 403 ''Not your job''))"
  by (cases "role u") (auto simp: assert_job_access_def access_rule_table_def)

theorem job_access_rule_table_witness:
  "assert_job_access ex_officer ex_job = Inr ()
   \<and> assert_job_access ex_driver (ex_job\<lparr>assigned_driver_id := None\<rparr>)
       = Inl (HTTPException 403 ''Not your job'')"
proof -
  have a: "first_match access_rule_table ex_officer ex_job = Allow"
    by (simp add: access_rule_table_def ex_officer_def ex_job_def)
  have d: "first_match access_rule_table ex_driver (ex_job\<lparr>assigned_driver_id := None\<rparr>) = Deny"
    by (simp add: access_rule_table_def ex_driver_def ex_job_def)
  from a job_access_rule_table [of ex_officer ex_job]
  have "assert_job_access ex_officer ex_job = Inr ()" by simp
  moreover from d job_access_rule_table [of ex_driver "ex_job\<lparr>assigned_driver_id := None\<rparr>"]
  have "assert_job_access ex_driver (ex_job\<lparr>assigned_driver_id := None\<rparr>)
          = Inl (HTTPException 403 ''Not your job'')" by simp
  ultimately show ?thesis by simp
qed

section \<open>Facts about the session operations\<close>

lemma query_job_id: "query_job s jid = Some job \<Longrightarrow> job_id job = jid"
  by (auto simp: query_job_def find_Some_iff)

lemma flush_job_id [simp]: "job_id new = job_id old \<Longrightarrow> job_id (flush_job now old new) = job_id old"
  by (simp add: flush_job_def)

lemma flush_job_status [simp]: "status (flush_job now old new) = status new"
  by (simp add: flush_job_def)

lemma flush_job_officer [simp]: "officer_id (flush_job now old new) = officer_id new"
  by (simp add: flush_job_def)

lemma find_put_other:
  "job_id n = i \<Longrightarrow> k \<noteq> i \<Longrightarrow>
   find (\<lambda>j. job_id j = k) (map (\<lambda>j. if job_id j = i then n else j) xs)
     = find (\<lambda>j. job_id j = k) xs"
  by (induction xs) auto

lemma find_put_same:
  "find (\<lambda>j. job_id j = i) xs = Some old \<Longrightarrow> job_id n = i \<Longrightarrow>
   find (\<lambda>j. job_id j = i) (map (\<lambda>j. if job_id j = i then n else j) xs) = Some n"
  by (induction xs) (auto split: if_splits)

lemma find_put:
  "find (\<lambda>j. job_id j = i) xs = Some old \<Longrightarrow> job_id n = i \<Longrightarrow>
   find (\<lambda>j. job_id j = k) (map (\<lambda>j. if job_id j = i then n else j) xs)
     = (if k = i then Some n else find (\<lambda>j. job_id j = k) xs)"
  using find_put_other [of n i k xs] find_put_same [of i xs old n] by simp

lemma query_put_job:
  assumes "query_job s jid = Some old" "job_id new = job_id old"
  shows "query_job (put_job s now old new) k
           = (if k = jid then Some (flush_job now old new) else query_job s k)"
proof -
  have i: "job_id old = jid" using assms(1) by (rule query_job_id)
  have "find (\<lambda>j. job_id j = jid) (tow_jobs s) = Some old"
    using assms(1) by (simp add: query_job_def)
  moreover have "job_id (flush_job now old new) = jid" using assms(2) i by simp
  ultimately show ?thesis
    using find_put [of jid "tow_jobs s" old "flush_job now old new" k]
    by (simp add: query_job_def put_job_def i)
qed

lemma query_log_event [simp]: "query_job (log_event s u n j a t m) k = query_job s k"
  by (simp add: query_job_def log_event_def)

lemma file_write_frame:
  assumes "file_write w path c = Inr w'"
  shows "db w' = db w" "cwd w' = cwd w" "settings w' = settings w" "dirs w' = dirs w"
    and "remove_denied w' = remove_denied w" "oserror_text w' = oserror_text w"
    and "k \<noteq> abspath (cwd w) path \<Longrightarrow> disk w' k = disk w k"
  using assms
  by (auto simp: file_write_def append_bytes_def split: option.splits prod.splits nat.splits)

lemma stream_loop_frame:
  "db (fst (stream_loop w path m f n)) = db w
   \<and> cwd (fst (stream_loop w path m f n)) = cwd w
   \<and> settings (fst (stream_loop w path m f n)) = settings w
   \<and> dirs (fst (stream_loop w path m f n)) = dirs w
   \<and> remove_denied (fst (stream_loop w path m f n)) = remove_denied w
   \<and> oserror_text (fst (stream_loop w path m f n)) = oserror_text w
   \<and> (\<forall>k. k \<noteq> abspath (cwd w) path \<longrightarrow> disk (fst (stream_loop w path m f n)) k = disk w k)"
proof (induction w path m f n rule: stream_loop.induct)
  case (1 w path max_bytes f bytes_written)
  show ?case
  proof (cases "file_read (1024 * 1024) f")
    case (Inl e)
    then have "stream_loop w path max_bytes f bytes_written = (w, Inl e)"
      by (subst stream_loop.simps) simp
    then show ?thesis by simp
  next
    case (Inr r)
    obtain chunk f' where r: "r = (chunk, f')" by (cases r)
    show ?thesis
    proof (cases "chunk = [] \<or> int (bytes_written + length chunk) > max_bytes")
      case True
      then have "fst (stream_loop w path max_bytes f bytes_written) = w"
        using Inr r by (subst stream_loop.simps) (auto simp: Let_def)
      then show ?thesis by simp
    next
      case False
      show ?thesis
      proof (cases "file_write w path chunk")
        case (Inl e)
        then have "stream_loop w path max_bytes f bytes_written = (w, Inl e)"
          using Inr r False by (subst stream_loop.simps) (auto simp: Let_def)
        then show ?thesis by simp
      next
        case fw: (Inr w')
        have ih: "db (fst (stream_loop w' path max_bytes f' (bytes_written + length chunk))) = db w'
           \<and> cwd (fst (stream_loop w' path max_bytes f' (bytes_written + length chunk))) = cwd w'
           \<and> settings (fst (stream_loop w' path max_bytes f' (bytes_written + length chunk))) = settings w'
           \<and> dirs (fst (stream_loop w' path max_bytes f' (bytes_written + length chunk))) = dirs w'
           \<and> remove_denied (fst (stream_loop w' path max_bytes f' (bytes_written + length chunk)))
               = remove_denied w'
           \<and> oserror_text (fst (stream_loop w' path max_bytes f' (bytes_written + length chunk)))
               = oserror_text w'
           \<and> (\<forall>k. k \<noteq> abspath (cwd w') path \<longrightarrow>
                 disk (fst (stream_loop w' path max_bytes f' (bytes_written + length chunk))) k = disk w' k)"
          using "1" Inr r False fw by auto
        have eq: "stream_loop w path max_bytes f bytes_written
                    = stream_loop w' path max_bytes f' (bytes_written + length chunk)"
          using Inr r False fw by (subst stream_loop.simps) (auto simp: Let_def)
        show ?thesis
          unfolding eq using ih file_write_frame [OF fw] by auto
      qed
    qed
  qed
qed

lemma stream_loop_db: "db (fst (stream_loop w path m f n)) = db w"
  using stream_loop_frame [of w path m f n] by simp

lemma ensure_upload_dir_frame:
  assumes "ensure_upload_dir w = Inr w0"
  shows "db w0 = db w" "cwd w0 = cwd w" "settings w0 = settings w" "disk w0 = disk w"
    and "remove_denied w0 = remove_denied w" "oserror_text w0 = oserror_text w"
    and "write_fault w0 = write_fault w" "open_denied w0 = open_denied w"
    and "dirs w0 = insert (abspath (cwd w) UPLOAD_DIR) (dirs w)"
  using assms by (auto simp: ensure_upload_dir_def split: if_splits)

lemma open_wb_frame:
  assumes "open_wb w path = Inr w1"
  shows "db w1 = db w" "cwd w1 = cwd w" "settings w1 = settings w" "dirs w1 = dirs w"
    and "remove_denied w1 = remove_denied w" "oserror_text w1 = oserror_text w"
    and "write_fault w1 = write_fault w"
    and "disk w1 = (disk w)(abspath (cwd w) path \<mapsto> [])" and "open_ok w path"
  using assms by (auto simp: open_wb_def split: if_splits)

lemma cleanup_db [simp]: "db (cleanup w path) = db w"
  by (auto simp: cleanup_def os_remove_def split: sum.splits if_splits)

lemma save_upload_db: "save_upload_streaming w u f = (w', r) \<Longrightarrow> db w' = db w"
proof -
  assume a: "save_upload_streaming w u f = (w', r)"
  show ?thesis
  proof (cases "ensure_upload_dir w")
    case (Inl e)
    with a show ?thesis by (auto simp: save_upload_streaming_def split: py_exn.splits)
  next
    case e: (Inr w0)
    let ?p = "upload_path u (filename f)"
    have d0: "db w0 = db w" using ensure_upload_dir_frame(1) [OF e] .
    show ?thesis
    proof (cases "open_wb w0 ?p")
      case (Inl x)
      with a e d0 show ?thesis
        by (auto simp: save_upload_streaming_def Let_def split: py_exn.splits)
    next
      case o: (Inr w1)
      let ?r = "stream_loop w1 ?p (MAX_UPLOAD_MB (settings w0) * 1024 * 1024) f 0"
      obtain w2 r2 where r: "?r = (w2, r2)" by (cases ?r)
      have "db (fst ?r) = db w1" by (rule stream_loop_db)
      then have "db w2 = db w" unfolding r using open_wb_frame(1) [OF o] d0 by simp
      with a e o r show ?thesis
        by (auto simp: save_upload_streaming_def Let_def split: sum.splits py_exn.splits)
    qed
  qed
qed

lemma update_status_ok:
  assumes "query_job (db w) jid = Some job" "assert_job_access user job = Inr ()"
  shows "query_job (db (fst (update_status w user jid payload ev_uuid now))) jid \<noteq> None
       \<and> map_option status (query_job (db (fst (update_status w user jid payload ev_uuid now))) jid)
           = Some (su_status payload)"
  using assms
  by (simp add: update_status_def Let_def query_put_job)

lemma assign_driver_ok:
  assumes "role caller \<in> {DISPATCHER, ADMIN}" "query_job (db w) jid = Some job"
    and "find (\<lambda>u. user_id u = driver_id payload \<and> role u = DRIVER \<and> is_active u) (users (db w)) = Some d"
  shows "map_option status (query_job (db (fst (assign_driver w caller jid payload ev_uuid now))) jid)
           = Some ASSIGNED"
  using assms
  by (auto simp: assign_driver_def require_roles_def Let_def query_put_job)

lemma update_status_officer:
  "map_option officer_id (query_job (db (fst (update_status w user jid payload ev_uuid now))) k)
     = map_option officer_id (query_job (db w) k)"
  by (auto simp: update_status_def Let_def query_put_job dest: query_job_id
           split: option.splits sum.splits)

lemma assign_driver_officer:
  "map_option officer_id (query_job (db (fst (assign_driver w caller jid payload ev_uuid now))) k)
     = map_option officer_id (query_job (db w) k)"
  by (auto simp: assign_driver_def Let_def query_put_job dest: query_job_id
           split: option.splits sum.splits)

lemma query_add_photo [simp]:
  "query_job (s\<lparr>tow_job_photos := ps\<rparr>) k = query_job s k"
  by (simp add: query_job_def)

lemma upload_job_photo_jobs:
  "tow_jobs (db (fst (upload_job_photo w lib user jid form fu pu eu now))) = tow_jobs (db w)"
  by (auto simp: upload_job_photo_def Let_def log_event_def dest: save_upload_db
           split: option.splits sum.splits prod.splits)

lemma upload_job_photo_officer:
  "map_option officer_id (query_job (db (fst (upload_job_photo w lib user jid form fu pu eu now))) k)
     = map_option officer_id (query_job (db w) k)"
  by (simp add: query_job_def upload_job_photo_jobs)

lemma missing_job_404:
  assumes "query_job (db w) jid = None"
  shows "update_status w user jid ps ev_uuid now = (w, Inl (HTTPException 404 ''Tow job not found''))"
    and "upload_job_photo w lib user jid form fu pu eu now
           = (w, Inl (HTTPException 404 ''Tow job not found''))"
    and "download_job_photo w user jid pid = Inl (HTTPException 404 ''Tow job not found'')"
    and "get_job_evidence w user jid = Inl (HTTPException 404 ''Tow job not found'')"
    and "get_job_events w user jid = Inl (HTTPException 404 ''Tow job not found'')"
  using assms
  by (simp_all add: update_status_def upload_job_photo_def download_job_photo_def
        get_job_evidence_def get_job_events_def)

lemma ex_query: "query_job (db ex_world) ''j1'' = Some ex_job"
  by (simp add: query_job_def ex_world_def ex_job_def)

lemma ex_admin_access: "assert_job_access ex_admin ex_job = Inr ()"
  by (simp add: assert_job_access_def ex_admin_def)

lemma ex_find_driver:
  "find (\<lambda>u. user_id u = driver_id \<lparr>driver_id = ''u-driver''\<rparr> \<and> role u = DRIVER \<and> is_active u)
     (users (db ex_world)) = Some ex_driver"
  by (simp add: ex_world_def ex_officer_def ex_driver_def)

lemma find_user_id: "find (\<lambda>u. user_id u = uid) us = Some u \<Longrightarrow> user_id u = uid"
  by (auto simp: find_Some_iff)

lemma ex_find_admin: "find (\<lambda>u. user_id u = user_id ex_admin) (users (db ex_world)) = Some ex_admin"
  by (simp add: ex_world_def ex_officer_def ex_driver_def ex_dispatcher_def ex_admin_def)

section \<open>Status transitions\<close>

text \<open>
  Claim C2, as the code has it. The handlers do not treat CLOSED and CANCELLED as
  terminal: whatever the current status of a job, \<^verbatim>\<open>update_status\<close> by a caller who passes
  the access guard sets the status to the requested value, and \<^verbatim>\<open>assign_driver\<close> by a
  dispatcher or admin with an existing active driver sets it to ASSIGNED.
\<close>

theorem status_follows_request:
  "(query_job (db w) jid = Some job \<and> assert_job_access user job = Inr () \<longrightarrow>
      map_option status (query_job (db (fst (update_status w user jid ps ev_uuid now))) jid)
        = Some (su_status ps))
   \<and> (role caller \<in> {DISPATCHER, ADMIN} \<and> query_job (db w) jid = Some job
       \<and> find (\<lambda>u. user_id u = driver_id pa \<and> role u = DRIVER \<and> is_active u) (users (db w)) = Some d
       \<longrightarrow> map_option status (query_job (db (fst (assign_driver w caller jid pa ev_uuid' now'))) jid)
             = Some ASSIGNED)"
  using update_status_ok [of w jid job user ps ev_uuid now]
        assign_driver_ok [of caller w jid job pa d ev_uuid' now']
  by blast

theorem status_follows_request_witness:
  "query_job (db ex_world) ''j1'' = Some ex_job \<and> assert_job_access ex_admin ex_job = Inr ()
   \<and> map_option status (query_job (db (fst (update_status ex_world ex_admin ''j1''
         \<lparr>su_status = TOWED, su_notes = None\<rparr> ''e1'' 9))) ''j1'') = Some TOWED
   \<and> role ex_dispatcher \<in> {DISPATCHER, ADMIN}
   \<and> map_option status (query_job (db (fst (assign_driver ex_world ex_dispatcher ''j1''
         \<lparr>driver_id = ''u-driver''\<rparr> ''e2'' 9))) ''j1'') = Some ASSIGNED"
proof -
  have r: "role ex_dispatcher \<in> {DISPATCHER, ADMIN}" by (simp add: ex_dispatcher_def)
  from status_follows_request [of ex_world "''j1''" ex_job ex_admin
         "\<lparr>su_status = TOWED, su_notes = None\<rparr>" "''e1''" 9 ex_dispatcher
         "\<lparr>driver_id = ''u-driver''\<rparr>" ex_driver "''e2''" 9]
       ex_query ex_admin_access ex_find_driver r
  show ?thesis by simp
qed

text \<open>
  The claim as stated fails: the example job is CLOSED, and both operations move it to
  another status.
\<close>

theorem terminal_status_counterexample:
  "status ex_job = CLOSED
   \<and> query_job (db ex_world) ''j1'' = Some ex_job
   \<and> map_option status (query_job (db (fst (update_status ex_world ex_admin ''j1''
         \<lparr>su_status = EN_ROUTE, su_notes = None\<rparr> ''e1'' 9))) ''j1'') = Some EN_ROUTE
   \<and> map_option status (query_job (db (fst (assign_driver ex_world ex_dispatcher ''j1''
         \<lparr>driver_id = ''u-driver''\<rparr> ''e2'' 9))) ''j1'') = Some ASSIGNED"
proof -
  have r: "role ex_dispatcher \<in> {DISPATCHER, ADMIN}" by (simp add: ex_dispatcher_def)
  have c: "status ex_job = CLOSED" by (simp add: ex_job_def)
  from update_status_ok [OF ex_query ex_admin_access, of "\<lparr>su_status = EN_ROUTE, su_notes = None\<rparr>" "''e1''" 9]
       assign_driver_ok [OF r ex_query ex_find_driver, of "''e2''" 9] c ex_query
  show ?thesis by simp
qed

section \<open>The owner of a job\<close>

text \<open>
  Claim C9. \<^verbatim>\<open>assign_driver\<close>, \<^verbatim>\<open>update_status\<close> and \<^verbatim>\<open>upload_job_photo\<close> leave the
  \<^verbatim>\<open>officer_id\<close> of every job as it was, whether they succeed or fail: the job found
  under any id has the same owner before and after.
\<close>

theorem officer_id_immutable:
  "map_option officer_id (query_job (db (fst (assign_driver w caller jid pa ev_uuid now))) k)
     = map_option officer_id (query_job (db w) k)
   \<and> map_option officer_id (query_job (db (fst (update_status w user jid ps ev_uuid now))) k)
     = map_option officer_id (query_job (db w) k)
   \<and> map_option officer_id
       (query_job (db (fst (upload_job_photo w lib user jid form file_uuid photo_uuid ev_uuid now))) k)
     = map_option officer_id (query_job (db w) k)"
  by (simp add: assign_driver_officer update_status_officer upload_job_photo_officer)

theorem officer_id_immutable_witness:
  "map_option officer_id (query_job (db (fst (assign_driver ex_world ex_dispatcher ''j1''
       \<lparr>driver_id = ''u-driver''\<rparr> ''e2'' 9))) ''j1'') = Some ''u-officer''
   \<and> map_option officer_id (query_job (db (fst (update_status ex_world ex_driver ''j1''
       \<lparr>su_status = EN_ROUTE, su_notes = Some ''go''\<rparr> ''e2'' 9))) ''j1'') = Some ''u-officer''"
  using officer_id_immutable [of ex_world ex_dispatcher "''j1''" "\<lparr>driver_id = ''u-driver''\<rparr>"
          "''e2''" 9 "''j1''" ex_driver "\<lparr>su_status = EN_ROUTE, su_notes = Some ''go''\<rparr>"]
        ex_query
  by (simp add: ex_job_def)

section \<open>Existence before access\<close>

text \<open>
  Claim C10. In update status, upload photo, download photo, get evidence and get events
  the job is looked up before the access guard runs: when no job has the given id the
  result is 404, whoever the caller is, and nothing is changed; so a 403 from any of
  them means that the job exists.
\<close>

theorem existence_check_precedes_access_check:
  "(query_job (db w) jid = None \<longrightarrow>
      update_status w user jid ps ev_uuid now = (w, Inl (HTTPException 404 ''Tow job not found''))
    \<and> upload_job_photo w lib user jid form fu pu eu now
        = (w, Inl (HTTPException 404 ''Tow job not found''))
    \<and> download_job_photo w user jid pid = Inl (HTTPException 404 ''Tow job not found'')
    \<and> get_job_evidence w user jid = Inl (HTTPException 404 ''Tow job not found'')
    \<and> get_job_events w user jid = Inl (HTTPException 404 ''Tow job not found''))
   \<and> ((snd (update_status w user jid ps ev_uuid now) = Inl (HTTPException 403 d)
        \<or> snd (upload_job_photo w lib user jid form fu pu eu now) = Inl (HTTPException 403 d)
        \<or> download_job_photo w user jid pid = Inl (HTTPException 403 d)
        \<or> get_job_evidence w user jid = Inl (HTTPException 403 d)
        \<or> get_job_events w user jid = Inl (HTTPException 403 d))
       \<longrightarrow> query_job (db w) jid \<noteq> None)"
proof (cases "query_job (db w) jid")
  case None
  from missing_job_404 [OF None] show ?thesis
    by (simp add: None)
next
  case (Some job)
  then show ?thesis by simp
qed

theorem existence_check_precedes_access_check_witness:
  "query_job (db ex_world) ''missing'' = None
   \<and> update_status ex_world ex_driver ''missing'' \<lparr>su_status = TOWED, su_notes = None\<rparr> ''e1'' 9
       = (ex_world, Inl (HTTPException 404 ''Tow job not found''))
   \<and> get_job_events ex_world ex_officer ''missing'' = Inl (HTTPException 404 ''Tow job not found'')"
proof -
  have n: "query_job (db ex_world) ''missing'' = None"
    by (simp add: query_job_def ex_world_def ex_job_def)
  from existence_check_precedes_access_check [of ex_world "''missing''" ex_driver
         "\<lparr>su_status = TOWED, su_notes = None\<rparr>" "''e1''" 9] n
  have "update_status ex_world ex_driver ''missing'' \<lparr>su_status = TOWED, su_notes = None\<rparr> ''e1'' 9
       = (ex_world, Inl (HTTPException 404 ''Tow job not found''))" by simp
  moreover from existence_check_precedes_access_check [of ex_world "''missing''" ex_officer] n
  have "get_job_events ex_world ex_officer ''missing'' = Inl (HTTPException 404 ''Tow job not found'')"
    by simp
  ultimately show ?thesis using n by simp
qed

section \<open>Self-lockout prevention\<close>

text \<open>
  Claim C8. An admin who updates their own user record with \<^verbatim>\<open>is_active\<close> false, or with
  a role other than ADMIN, is refused and the world is left as it was. The refusal is the
  400 of the handler when the body passes the schema, and the 422 of the schema when the
  name or phone it carries has a bad length.
\<close>

theorem admin_self_lockout_refused:
  assumes "role admin = ADMIN"
    and "find (\<lambda>u. user_id u = user_id admin) (users (db w)) = Some u"
    and "au_is_active payload = Some False \<or> (\<exists>r. au_role payload = Some r \<and> r \<noteq> ADMIN)"
  shows "fst (admin_update_user w admin (user_id admin) payload) = w
       \<and> (\<exists>d. snd (admin_update_user w admin (user_id admin) payload)
                = Inl (HTTPException (if AdminUserUpdate_valid payload then 400 else 422) d))"
  using assms find_user_id [OF assms(2)]
  by (auto simp: admin_update_user_def require_roles_def)

theorem admin_self_lockout_refused_witness:
  "role ex_admin = ADMIN
   \<and> find (\<lambda>u. user_id u = user_id ex_admin) (users (db ex_world)) = Some ex_admin
   \<and> fst (admin_update_user ex_world ex_admin (user_id ex_admin)
         \<lparr>au_name = None, au_phone = None, au_role = Some DRIVER, au_is_active = None\<rparr>) = ex_world
   \<and> (\<exists>d. snd (admin_update_user ex_world ex_admin (user_id ex_admin)
         \<lparr>au_name = None, au_phone = None, au_role = Some DRIVER, au_is_active = None\<rparr>)
           = Inl (HTTPException 400 d))"
proof -
  have r: "role ex_admin = ADMIN" by (simp add: ex_admin_def)
  have v: "AdminUserUpdate_valid \<lparr>au_name = None, au_phone = None, au_role = Some DRIVER, au_is_active = None\<rparr>"
    by (simp add: AdminUserUpdate_valid_def)
  from admin_self_lockout_refused [OF r ex_find_admin,
         of "\<lparr>au_name = None, au_phone = None, au_role = Some DRIVER, au_is_active = None\<rparr>"] v r ex_find_admin
  show ?thesis by simp
qed

section \<open>The audit event of a status update\<close>

lemma parse_status_message_ok:
  assumes "sfx = [] \<or> hd sfx = CHR '' ''"
  shows "parse_status_message (''Status '' @ status_value a @ '' -> '' @ status_value b @ sfx)
           = (status_value a, status_value b)"
  using assms
  by (cases a; cases b; cases sfx) (simp_all add: parse_status_message_def Let_def)

lemma events_put_job [simp]: "tow_job_events (put_job s now old new) = tow_job_events s"
  by (simp add: put_job_def)

text \<open>
  Claim C5. For every job and every caller who passes the access guard, \<^verbatim>\<open>update_status\<close>
  appends exactly one event to the audit trail; its type is STATUS_CHANGED, and its
  message is \<open>Status old -> new\<close>, followed by the stripped note after a bar when a note
  is supplied. Both status values can be read back from the message.
\<close>

theorem update_status_logs_one_event:
  assumes "query_job (db w) jid = Some job" and "assert_job_access user job = Inr ()"
  shows "\<exists>m. tow_job_events (db (fst (update_status w user jid ps ev_uuid now)))
           = tow_job_events (db w) @
               [\<lparr>event_id = ev_uuid, ev_tow_job_id = jid, actor_user_id = user_id user,
                 event_type = ''STATUS_CHANGED'', message = Some m, ev_created_at = now\<rparr>]
         \<and> m = ''Status '' @ status_value (status job) @ '' -> '' @ status_value (su_status ps)
               @ (if truthy (su_notes ps) then '' | '' @ strip (str_or_empty (su_notes ps)) else [])
         \<and> parse_status_message m = (status_value (status job), status_value (su_status ps))"
proof -
  let ?sfx = "(if truthy (su_notes ps) then '' | '' @ strip (str_or_empty (su_notes ps)) else [])"
  have p: "parse_status_message (''Status '' @ status_value (status job) @ '' -> ''
             @ status_value (su_status ps) @ ?sfx)
           = (status_value (status job), status_value (su_status ps))"
    by (rule parse_status_message_ok) simp
  have j: "job_id job = jid" using assms(1) by (rule query_job_id)
  have "tow_job_events (db (fst (update_status w user jid ps ev_uuid now)))
           = tow_job_events (db w) @
               [\<lparr>event_id = ev_uuid, ev_tow_job_id = jid, actor_user_id = user_id user,
                 event_type = ''STATUS_CHANGED'',
                 message = Some (''Status '' @ status_value (status job) @ '' -> ''
                            @ status_value (su_status ps) @ ?sfx),
                 ev_created_at = now\<rparr>]"
    using assms j by (simp add: update_status_def Let_def log_event_def)
  with p show ?thesis by blast
qed

lemma ex_driver_access: "assert_job_access ex_driver ex_job = Inr ()"
  by (simp add: assert_job_access_def ex_driver_def ex_job_def)

theorem update_status_logs_one_event_witness:
  "query_job (db ex_world) ''j1'' = Some ex_job \<and> assert_job_access ex_driver ex_job = Inr ()
   \<and> tow_job_events (db (fst (update_status ex_world ex_driver ''j1''
          \<lparr>su_status = EN_ROUTE, su_notes = Some ''heading to lot''\<rparr> ''e1'' 9)))
       = tow_job_events (db ex_world) @
           [\<lparr>event_id = ''e1'', ev_tow_job_id = ''j1'', actor_user_id = ''u-driver'',
             event_type = ''STATUS_CHANGED'',
             message = Some (''Status CLOSED -> EN_ROUTE | '' @ strip ''heading to lot''),
             ev_created_at = 9\<rparr>]"
  using update_status_logs_one_event [OF ex_query ex_driver_access,
          of "\<lparr>su_status = EN_ROUTE, su_notes = Some ''heading to lot''\<rparr>" "''e1''" 9]
        ex_query ex_driver_access
  by (simp add: ex_job_def ex_driver_def)

section \<open>The path of a stored upload\<close>

text \<open>
  For a uuid without a slash the stored path is the upload root, a slash, and the uuid
  followed by the extension. When the extension has no slash either, the only directory
  on the way to the file is the upload root, so once \<^verbatim>\<open>ensure_upload_dir\<close> has returned,
  \<^verbatim>\<open>open\<close> succeeds unless the name holds a NUL, the path is a directory or the operating
  system refuses it.
\<close>

lemma split_on_none: "sep \<notin> set s \<Longrightarrow> split_on sep s = [s]"
  by (induction s) auto

lemma split_on_first:
  "sep \<notin> set a \<Longrightarrow> split_on sep (a @ sep # b) = a # split_on sep b"
  by (induction a) auto

lemma guess_ext_cases: "guess_ext fname = [] \<or> hd (guess_ext fname) = CHR ''.''"
  by (auto simp: guess_ext_def split: option.splits)

lemma upload_path_eq:
  assumes "CHR ''/'' \<notin> set uuid"
  shows "upload_path uuid fname = ''uploads/'' @ uuid @ guess_ext fname"
proof -
  have "uuid @ guess_ext fname = [] \<or> hd (uuid @ guess_ext fname) \<noteq> CHR ''/''"
    using assms guess_ext_cases [of fname] by (cases uuid) auto
  then show ?thesis
    by (auto simp: upload_path_def os_path_join_def UPLOAD_DIR_def Let_def)
qed

lemma dir_prefixes_plain_name:
  assumes "CHR ''/'' \<notin> set uuid" and "CHR ''/'' \<notin> set (guess_ext fname)"
  shows "dir_prefixes (upload_path uuid fname) = [UPLOAD_DIR]"
proof -
  have "split_on CHR ''/'' (''uploads'' @ CHR ''/'' # (uuid @ guess_ext fname))
          = ''uploads'' # split_on CHR ''/'' (uuid @ guess_ext fname)"
    by (rule split_on_first) simp
  also have "split_on CHR ''/'' (uuid @ guess_ext fname) = [uuid @ guess_ext fname]"
    using assms by (intro split_on_none) simp
  finally have "split_on CHR ''/'' (upload_path uuid fname) = [''uploads'', uuid @ guess_ext fname]"
    by (simp add: upload_path_eq [OF assms(1)])
  then show ?thesis by (simp add: dir_prefixes_def UPLOAD_DIR_def)
qed

lemma open_ok_plain_name:
  assumes "ensure_upload_dir w = Inr w0"
    and "CHR ''/'' \<notin> set uuid" and "CHR ''/'' \<notin> set (guess_ext fname)"
    and "CHR 0x00 \<notin> set (uuid @ guess_ext fname)"
    and "abspath (cwd w) (upload_path uuid fname) \<notin> dirs w0"
    and "\<not> open_denied w (upload_path uuid fname)"
  shows "open_ok w0 (upload_path uuid fname)"
proof -
  note fr = ensure_upload_dir_frame [OF assms(1)]
  have "upload_path uuid fname \<noteq> []" "CHR 0x00 \<notin> set (upload_path uuid fname)"
    using assms(4) by (simp_all add: upload_path_eq [OF assms(2)])
  then show ?thesis
    using assms(5,6) fr dir_prefixes_plain_name [OF assms(2,3)]
    by (simp add: open_ok_def)
qed

section \<open>The upload ceiling\<close>

lemma append_bytes_frame [simp]:
  "cwd (append_bytes w p c) = cwd w" "settings (append_bytes w p c) = settings w"
  "db (append_bytes w p c) = db w" "write_fault (append_bytes w p c) = write_fault w"
  "dirs (append_bytes w p c) = dirs w"
  by (simp_all add: append_bytes_def)

lemma append_bytes_append:
  "append_bytes (append_bytes w p a) p b = append_bytes w p (a @ b)"
  by (simp add: append_bytes_def split: option.splits)

lemma file_write_ok: "write_fault w = None \<Longrightarrow> file_write w p c = Inr (append_bytes w p c)"
  by (simp add: file_write_def)

lemma stream_loop_unfold:
  assumes "fault f = None" and "write_fault w = None"
  shows "stream_loop w path m f n =
     (if data f = [] then (w, Inr n)
      else if int (n + length (take 1048576 (data f))) > m then
        (w, Inl (HTTPExc (HTTPException 413
           (''File too large. Max is '' @ str_int (MAX_UPLOAD_MB (settings w)) @ ''MB.''))))
      else stream_loop (append_bytes w path (take 1048576 (data f))) path m
             (f\<lparr>data := drop 1048576 (data f)\<rparr>) (n + length (take 1048576 (data f))))"
  using assms
  by (subst stream_loop.simps) (simp add: file_read_def Let_def file_write_ok)

lemma stream_loop_fits:
  "fault f = None \<Longrightarrow> write_fault w = None \<Longrightarrow> int (n + length (data f)) \<le> m \<Longrightarrow>
   stream_loop w path m f n
     = ((if data f = [] then w else append_bytes w path (data f)), Inr (n + length (data f)))"
proof (induction "length (data f)" arbitrary: f w n rule: less_induct)
  case less
  show ?case
  proof (cases "data f = []")
    case True
    then show ?thesis using less.prems by (simp add: stream_loop_unfold)
  next
    case False
    let ?c = "take 1048576 (data f)"
    let ?f = "f\<lparr>data := drop 1048576 (data f)\<rparr>"
    let ?w = "append_bytes w path ?c"
    have l: "length (data ?f) < length (data f)" using False by simp
    have fl: "fault ?f = None" using less.prems(1) by simp
    have wf: "write_fault ?w = None" using less.prems(2) by simp
    have sum: "length ?c + length (data ?f) = length (data f)" by simp
    have fit: "int (n + length ?c + length (data ?f)) \<le> m" using less.prems(3) sum by simp
    have small: "\<not> int (n + length ?c) > m" using fit by simp
    have "stream_loop w path m f n = stream_loop ?w path m ?f (n + length ?c)"
      using False small less.prems(1,2) by (subst stream_loop_unfold) simp_all
    also have "\<dots> = ((if data ?f = [] then ?w else append_bytes ?w path (data ?f)),
                     Inr (n + length ?c + length (data ?f)))"
      using less.hyps [OF l fl wf fit] by simp
    also have "\<dots> = (append_bytes w path (data f), Inr (n + length (data f)))"
    proof (cases "data ?f = []")
      case True
      then have "?c = data f" by simp
      with True sum show ?thesis by simp
    next
      case False
      have "?c @ data ?f = data f" by simp
      with False sum show ?thesis by (simp only: append_bytes_append if_False) simp
    qed
    finally show ?thesis using False by simp
  qed
qed


lemma save_upload_fits:
  assumes "fault f = None" and "write_fault w = None"
    and "ensure_upload_dir w = Inr w0"
    and "open_ok w0 (upload_path uuid (filename f))"
    and "int (length (data f)) \<le> MAX_UPLOAD_MB (settings w) * 1024 * 1024"
  shows "save_upload_streaming w uuid f
           = (w0\<lparr>disk := (disk w0)(abspath (cwd w0) (upload_path uuid (filename f)) \<mapsto> data f)\<rparr>,
              Inr (upload_path uuid (filename f), length (data f)))"
proof -
  let ?p = "upload_path uuid (filename f)"
  let ?w1 = "w0\<lparr>disk := (disk w0)(abspath (cwd w0) ?p \<mapsto> [])\<rparr>"
  note fr = ensure_upload_dir_frame [OF assms(3)]
  have o: "open_wb w0 ?p = Inr ?w1" using assms(4) by (simp add: open_wb_def)
  have wf: "write_fault ?w1 = None" using assms(2) fr(7) by simp
  have "stream_loop ?w1 ?p (MAX_UPLOAD_MB (settings w0) * 1024 * 1024) f 0
          = ((if data f = [] then ?w1 else append_bytes ?w1 ?p (data f)),
             Inr (0 + length (data f)))"
    using assms(1,5) wf fr(3) by (intro stream_loop_fits) simp_all
  then show ?thesis
    using assms(3) o by (simp add: save_upload_streaming_def Let_def append_bytes_def)
qed



lemma ex_abs_uploads: "abspath (cwd ex_world) UPLOAD_DIR = ''/srv/app/uploads''"
  by code_simp

lemma ex_ensure: "ensure_upload_dir ex_world = Inr ex_world0"
  by (simp add: ensure_upload_dir_def ex_abs_uploads ex_world0_def) (simp add: ex_world_def)


lemma ex_open_slash: "\<not> open_ok ex_world0 (upload_path ''6f1c'' (Some ''x./etc/cron''))"
  by code_simp

lemma ex_world_facts:
  "write_fault ex_world = None" "\<not> remove_denied ex_world p"
  "oserror_text ex_world0 p = ''[Errno 2] No such file or directory: '' @ [CHR 0x27] @ p @ [CHR 0x27]"
  by (simp_all add: ex_world_def ex_world0_def)




section \<open>Client file names in the stored path\<close>

lemma save_upload_open_fails:
  assumes "ensure_upload_dir w = Inr w0" and "\<not> open_ok w0 (upload_path uuid (filename f))"
  shows "snd (save_upload_streaming w uuid f)
           = Inl (HTTPException 500
                (''Upload failed: '' @ oserror_text w0 (upload_path uuid (filename f))))"
  using assms by (simp add: save_upload_streaming_def Let_def open_wb_def)

text \<open>
  Claim C7 at a failing input. \<^verbatim>\<open>save_upload_streaming\<close> builds \<^verbatim>\<open>safe_name\<close> from a fresh
  uuid and the extension that \<^verbatim>\<open>_guess_ext\<close> takes from the client's file name, and
  \<^verbatim>\<open>_guess_ext\<close> does not look for a slash in the text after the last dot. For the client
  file name \<^verbatim>\<open>x./etc/cron\<close> the path is \<^verbatim>\<open>uploads/6f1c./etc/cron\<close>: its components after the
  upload root are the generated name with a dot, and then \<^verbatim>\<open>etc\<close> and \<^verbatim>\<open>cron\<close>, which the
  client chose. The directories \<^verbatim>\<open>uploads/6f1c.\<close> and \<^verbatim>\<open>uploads/6f1c./etc\<close> do not exist, so
  \<^verbatim>\<open>open\<close> raises and the upload is answered with 500.
\<close>

theorem upload_path_takes_client_components:
  "split_on CHR ''/'' (upload_path ''6f1c'' (filename ex_file_slash))
     = [''uploads'', ''6f1c.'', ''etc'', ''cron'']
   \<and> snd (save_upload_streaming ex_world ''6f1c'' ex_file_slash)
       = Inl (HTTPException 500 (''Upload failed: [Errno 2] No such file or directory: ''
                @ [CHR 0x27] @ ''uploads/6f1c./etc/cron'' @ [CHR 0x27]))"
proof -
  have f: "filename ex_file_slash = Some ''x./etc/cron''" by (simp add: ex_file_slash_def)
  have 1: "split_on CHR ''/'' (upload_path ''6f1c'' (Some ''x./etc/cron''))
     = [''uploads'', ''6f1c.'', ''etc'', ''cron'']" by code_simp
  have 2: "upload_path ''6f1c'' (Some ''x./etc/cron'') = ''uploads/6f1c./etc/cron''" by code_simp
  have "\<not> open_ok ex_world0 (upload_path ''6f1c'' (filename ex_file_slash))"
    using ex_open_slash by (simp add: f)
  from save_upload_open_fails [OF ex_ensure this]
  have "snd (save_upload_streaming ex_world ''6f1c'' ex_file_slash)
       = Inl (HTTPException 500 (''Upload failed: [Errno 2] No such file or directory: ''
                @ [CHR 0x27] @ ''uploads/6f1c./etc/cron'' @ [CHR 0x27]))"
    by (simp add: ex_world_facts f 2)
  with 1 f show ?thesis by simp
qed

section \<open>Location checks\<close>

lemma create_tow_job_stores_location:
  assumes "role caller \<in> {OFFICER, ADMIN}" and "TowJobCreate_valid payload"
  shows "\<exists>w' job. create_tow_job w lib caller payload job_uuid ev_uuid now = (w', Inr job)
           \<and> job \<in> set (tow_jobs (db w'))
           \<and> location_lat job = c_location_lat payload
           \<and> location_lng job = c_location_lng payload"
  using assms
  by (auto simp: create_tow_job_def require_roles_def Let_def log_event_def)

lemma submit_evidence_rejects_job_geo:
  assumes "role caller \<in> {OFFICER, ADMIN}"
    and "\<not> (- 90 \<le> ef_job_lat form \<and> ef_job_lat form \<le> 90)
         \<or> \<not> (- 180 \<le> ef_job_lng form \<and> ef_job_lng form \<le> 180)"
  shows "\<exists>d. submit_evidence w lib caller form ju e1 fu pu e2 now = (w, Inl (HTTPException 400 d))"
  using assms
  by (auto simp: submit_evidence_def require_roles_def Let_def)

lemma submit_evidence_rejects_photo_geo:
  assumes "(ef_photo_lat form = None) \<noteq> (ef_photo_lng form = None)
         \<or> outside_range (- 90) 90 (ef_photo_lat form)
         \<or> outside_range (- 180) 180 (ef_photo_lng form)"
    and "role caller \<in> {OFFICER, ADMIN}"
  shows "\<exists>d. submit_evidence w lib caller form ju e1 fu pu e2 now = (w, Inl (HTTPException 400 d))"
  using assms
  by (auto simp: submit_evidence_def require_roles_def Let_def)

lemma upload_job_photo_rejects_geo:
  assumes "query_job (db w) jid = Some job" and "assert_job_access user job = Inr ()"
    and "(pf_lat form = None) \<noteq> (pf_lng form = None)
         \<or> outside_range (- 90) 90 (pf_lat form)
         \<or> outside_range (- 180) 180 (pf_lng form)"
  shows "\<exists>d. upload_job_photo w lib user jid form fu pu eu now = (w, Inl (HTTPException 400 d))"
  using assms
  by (auto simp: upload_job_photo_def Let_def)

text \<open>
  Claim C3 at a failing input. \<^verbatim>\<open>upload_job_photo\<close> and \<^verbatim>\<open>submit_evidence\<close> refuse a
  location outside the ranges (the three lemmas above), but \<^verbatim>\<open>create_tow_job\<close> does not
  check: a body with latitude 123 and longitude 500 is accepted and the job is committed
  with that location.
\<close>

theorem create_tow_job_accepts_out_of_range:
  "\<not> (- 90 \<le> c_location_lat ex_bad_create \<and> c_location_lat ex_bad_create \<le> 90)
   \<and> \<not> (- 180 \<le> c_location_lng ex_bad_create \<and> c_location_lng ex_bad_create \<le> 180)
   \<and> (\<forall>lib. \<exists>w' job. create_tow_job ex_world lib ex_officer ex_bad_create ''j2'' ''e1'' 9 = (w', Inr job)
          \<and> job \<in> set (tow_jobs (db w'))
          \<and> location_lat job = 123 \<and> location_lng job = 500)"
proof -
  have r: "role ex_officer \<in> {OFFICER, ADMIN}" by (simp add: ex_officer_def)
  have v: "TowJobCreate_valid ex_bad_create" by (simp add: TowJobCreate_valid_def ex_bad_create_def)
  have "\<exists>w' job. create_tow_job ex_world lib ex_officer ex_bad_create ''j2'' ''e1'' 9 = (w', Inr job)
          \<and> job \<in> set (tow_jobs (db w'))
          \<and> location_lat job = 123 \<and> location_lng job = 500" for lib
    using create_tow_job_stores_location [OF r v, of ex_world lib "''j2''" "''e1''" 9]
    by (simp add: ex_bad_create_def)
  then show ?thesis by (simp add: ex_bad_create_def)
qed

section \<open>Atomicity of submit-evidence\<close>

lemma photos_log_event [simp]: "tow_job_photos (log_event s u n j a t m) = tow_job_photos s"
  "tow_jobs (log_event s u n j a t m) = tow_jobs s" "users (log_event s u n j a t m) = users s"
  by (simp_all add: log_event_def)

text \<open>
  Claim C4. \<^verbatim>\<open>submit_evidence\<close> commits once, at its end. Whenever it fails, the committed
  tables are the ones before the request: no job row and no event row is left. Whenever it
  succeeds, the committed tables have gained exactly the job, the photo, and the CREATED
  and PHOTO_UPLOADED events of that job. And when the photo write fails (too large, or an
  I/O error), the request fails.
\<close>

theorem submit_evidence_atomic:
  "(\<forall>e. snd (submit_evidence w lib caller form ju e1 fu pu e2 now) = Inl e
        \<longrightarrow> db (fst (submit_evidence w lib caller form ju e1 fu pu e2 now)) = db w)
   \<and> (\<forall>job rec url. snd (submit_evidence w lib caller form ju e1 fu pu e2 now) = Inr (job, rec, url)
        \<longrightarrow> job_id job = ju \<and> tow_job_id rec = ju \<and> photo_id rec = pu
          \<and> users (db (fst (submit_evidence w lib caller form ju e1 fu pu e2 now))) = users (db w)
          \<and> tow_jobs (db (fst (submit_evidence w lib caller form ju e1 fu pu e2 now)))
              = tow_jobs (db w) @ [job]
          \<and> tow_job_photos (db (fst (submit_evidence w lib caller form ju e1 fu pu e2 now)))
              = tow_job_photos (db w) @ [rec]
          \<and> (\<exists>m1 m2. tow_job_events (db (fst (submit_evidence w lib caller form ju e1 fu pu e2 now)))
              = tow_job_events (db w) @
                  [\<lparr>event_id = e1, ev_tow_job_id = ju, actor_user_id = user_id caller,
                    event_type = ''CREATED'', message = Some m1, ev_created_at = now\<rparr>,
                   \<lparr>event_id = e2, ev_tow_job_id = ju, actor_user_id = user_id caller,
                    event_type = ''PHOTO_UPLOADED'', message = Some m2, ev_created_at = now\<rparr>]))
   \<and> ((\<exists>e. snd (save_upload_streaming w fu (ef_photo form)) = Inl e)
        \<longrightarrow> (\<exists>e. snd (submit_evidence w lib caller form ju e1 fu pu e2 now) = Inl e))"
proof -
  obtain w1 r1 where s: "save_upload_streaming w fu (ef_photo form) = (w1, r1)"
    by (cases "save_upload_streaming w fu (ef_photo form)")
  have d: "db w1 = db w" using s by (rule save_upload_db)
  show ?thesis
    using s d
    by (cases r1)
       (auto simp: submit_evidence_def require_roles_def Let_def log_event_def
             split: sum.splits)
qed

lemma save_upload_fault:
  assumes "fault f = Some (0, msg)" and "ensure_upload_dir w = Inr w0"
    and "open_ok w0 (upload_path u (filename f))"
  shows "snd (save_upload_streaming w u f) = Inl (HTTPException 500 (''Upload failed: '' @ msg))"
  using assms
  by (simp add: save_upload_streaming_def Let_def open_wb_def stream_loop.simps [of _ _ _ f]
        file_read_def)

lemma ex_plate: "str_upper ex_lib (strip ''abc123'') = ''ABC123''"
  by code_simp

lemma ex_open_ok_f1: "open_ok ex_world0 (upload_path ''f1'' (Some ''photo.PNG''))"
  by code_simp

lemma ex_submit_fault:
  "snd (submit_evidence ex_world ex_lib ex_officer (ex_form ex_file_fault) ju e1 ''f1'' pu e2 now)
     = Inl (HTTPException 500 ''Upload failed: disk full'')"
proof -
  have "snd (save_upload_streaming ex_world ''f1'' ex_file_fault)
          = Inl (HTTPException 500 (''Upload failed: '' @ ''disk full''))"
    using ex_open_ok_f1 by (intro save_upload_fault [OF _ ex_ensure]) (simp_all add: ex_file_fault_def)
  then obtain w1 where "save_upload_streaming ex_world ''f1'' ex_file_fault
          = (w1, Inl (HTTPException 500 ''Upload failed: disk full''))"
    by (cases "save_upload_streaming ex_world ''f1'' ex_file_fault") simp
  then show ?thesis
    by (simp add: submit_evidence_def require_roles_def Let_def ex_form_def ex_officer_def ex_plate
          allowed_types_def allowed_ct_def parse_iso_datetime_def content_type_ok_def
          outside_range_def ex_file_fault_def)
qed

lemma ex_submit_ok:
  "\<exists>job rec url. snd (submit_evidence ex_world ex_lib ex_officer (ex_form ex_file_small)
                        ju e1 ''f1'' pu e2 now) = Inr (job, rec, url)"
proof -
  have "save_upload_streaming ex_world ''f1'' ex_file_small
          = (ex_world0\<lparr>disk := (disk ex_world0)(abspath (cwd ex_world0)
                (upload_path ''f1'' (filename ex_file_small)) \<mapsto> data ex_file_small)\<rparr>,
             Inr (upload_path ''f1'' (filename ex_file_small), length (data ex_file_small)))"
    using ex_open_ok_f1
    by (intro save_upload_fits [OF _ _ ex_ensure]) (simp_all add: ex_file_small_def ex_world_def)
  then show ?thesis
    by (simp add: submit_evidence_def require_roles_def Let_def ex_form_def ex_officer_def ex_plate
          allowed_types_def allowed_ct_def parse_iso_datetime_def content_type_ok_def
          outside_range_def ex_file_small_def)
qed

theorem submit_evidence_atomic_witness:
  "(\<exists>e. snd (save_upload_streaming ex_world ''f1'' (ef_photo (ex_form ex_file_fault))) = Inl e)
   \<and> snd (submit_evidence ex_world ex_lib ex_officer (ex_form ex_file_fault)
            ''j2'' ''e1'' ''f1'' ''p1'' ''e2'' 9) = Inl (HTTPException 500 ''Upload failed: disk full'')
   \<and> db (fst (submit_evidence ex_world ex_lib ex_officer (ex_form ex_file_fault)
            ''j2'' ''e1'' ''f1'' ''p1'' ''e2'' 9)) = db ex_world
   \<and> (\<exists>job rec url.
         snd (submit_evidence ex_world ex_lib ex_officer (ex_form ex_file_small)
                ''j2'' ''e1'' ''f1'' ''p1'' ''e2'' 9) = Inr (job, rec, url)
         \<and> tow_jobs (db (fst (submit_evidence ex_world ex_lib ex_officer (ex_form ex_file_small)
                ''j2'' ''e1'' ''f1'' ''p1'' ''e2'' 9))) = tow_jobs (db ex_world) @ [job]
         \<and> tow_job_photos (db (fst (submit_evidence ex_world ex_lib ex_officer (ex_form ex_file_small)
                ''j2'' ''e1'' ''f1'' ''p1'' ''e2'' 9))) = tow_job_photos (db ex_world) @ [rec])"
proof -
  have f: "snd (save_upload_streaming ex_world ''f1'' (ef_photo (ex_form ex_file_fault)))
          = Inl (HTTPException 500 (''Upload failed: '' @ ''disk full''))"
    using ex_open_ok_f1
    by (intro save_upload_fault [OF _ ex_ensure]) (simp_all add: ex_form_def ex_file_fault_def)
  note bad = submit_evidence_atomic [of ex_world ex_lib ex_officer "ex_form ex_file_fault"
               "''j2''" "''e1''" "''f1''" "''p1''" "''e2''" 9]
  note good = submit_evidence_atomic [of ex_world ex_lib ex_officer "ex_form ex_file_small"
               "''j2''" "''e1''" "''f1''" "''p1''" "''e2''" 9]
  have 1: "\<exists>e. snd (save_upload_streaming ex_world ''f1'' (ef_photo (ex_form ex_file_fault))) = Inl e"
    using f by simp
  have 2: "snd (submit_evidence ex_world ex_lib ex_officer (ex_form ex_file_fault)
            ''j2'' ''e1'' ''f1'' ''p1'' ''e2'' 9) = Inl (HTTPException 500 ''Upload failed: disk full'')"
    by (rule ex_submit_fault)
  have 3: "db (fst (submit_evidence ex_world ex_lib ex_officer (ex_form ex_file_fault)
            ''j2'' ''e1'' ''f1'' ''p1'' ''e2'' 9)) = db ex_world"
    using bad 2 by blast
  obtain job rec url where ok: "snd (submit_evidence ex_world ex_lib ex_officer (ex_form ex_file_small)
                ''j2'' ''e1'' ''f1'' ''p1'' ''e2'' 9) = Inr (job, rec, url)"
    using ex_submit_ok by blast
  with good have "tow_jobs (db (fst (submit_evidence ex_world ex_lib ex_officer (ex_form ex_file_small)
                ''j2'' ''e1'' ''f1'' ''p1'' ''e2'' 9))) = tow_jobs (db ex_world) @ [job]
         \<and> tow_job_photos (db (fst (submit_evidence ex_world ex_lib ex_officer (ex_form ex_file_small)
                ''j2'' ''e1'' ''f1'' ''p1'' ''e2'' 9))) = tow_job_photos (db ex_world) @ [rec]"
    by blast
  with ok 1 2 3 show ?thesis by blast
qed

end
